theory Spec2Isabelle
  imports Main "HOL-Library.Word" "HOL-Library.Multiset"
begin

unbundle bit_operations_syntax

section \<open>JavaScript values used by the parsers and the search engine\<close>

text \<open>
  A byte buffer (\<^verbatim>\<open>ArrayBuffer\<close>, \<^verbatim>\<open>Uint8Array\<close>, \<^verbatim>\<open>DataView\<close>) is a list of
  8-bit words. A JavaScript string is a list of UTF-16 code units. Exceptions are values:
  every function that can throw returns \<open>js_error + 'a\<close>, with \<open>Inl\<close> the exception.
\<close>

type_synonym byte = "8 word"
type_synonym jsstring = "16 word list"

datatype js_error =
    Error string
  | RangeError
  | SyntaxError

definition bindE :: "'e + 'a \<Rightarrow> ('a \<Rightarrow> 'e + 'b) \<Rightarrow> 'e + 'b" where
  "bindE m f = (case m of Inl e \<Rightarrow> Inl e | Inr x \<Rightarrow> f x)"

lemma bindE_cong [fundef_cong]:
  "m = m' \<Longrightarrow> (\<And>x. m' = Inr x \<Longrightarrow> f x = f' x) \<Longrightarrow> bindE m f = bindE m' f'"
  by (auto simp: bindE_def split: sum.splits)

lemma bindE_simps [simp]: "bindE (Inr x) f = f x" "bindE (Inl e) f = Inl e"
  by (simp_all add: bindE_def)

lemma bindE_weak_cong: "m = m' \<Longrightarrow> bindE m f = bindE m' f"
  by simp

text \<open>
  JavaScript numbers are IEEE doubles. \<open>js_round\<close> rounds a non-negative integer to
  the nearest double (53 significant bits, ties to even), which is what
  \<^verbatim>\<open>Number(bigint)\<close> and \<^verbatim>\<open>+\<close> do; below \<open>2 ^ 53\<close> it is the identity. It is applied
  where an operand can be a 64-bit field. Sums of buffer offsets and 32-bit fields are
  exact and written with \<open>+\<close>.
\<close>

fun bitlen :: "nat \<Rightarrow> nat" where
  "bitlen n = (if n = 0 then 0 else Suc (bitlen (n div 2)))"

declare bitlen.simps [simp del]

definition js_round :: "nat \<Rightarrow> nat" where
  "js_round n =
     (if n < 2 ^ 53 then n
      else let e = bitlen n - 53;
               q = n div 2 ^ e;
               r = n mod 2 ^ e;
               h = 2 ^ (e - 1)
           in if h < r \<or> (r = h \<and> odd q) then (q + 1) * 2 ^ e else q * 2 ^ e)"

definition js_add :: "nat \<Rightarrow> nat \<Rightarrow> nat" where
  "js_add a b = js_round (a + b)"

section \<open>Data model (types.ts)\<close>

datatype RegionType =
    DOS_HEADER | NT_HEADERS | FILE_HEADER | OPTIONAL_HEADER | SECTION_HEADER
  | SECTION_DATA | DATA_DIRECTORY | OVERLAY | FIELD | UNKNOWN
  | MACHO_HEADER | LOAD_COMMAND | SEGMENT | FAT_HEADER
  | ELF_HEADER | PROGRAM_HEADER
  | IMAGE_HEADER | PNG_CHUNK | IMAGE_DATA | JPEG_SEGMENT | HEIC_BOX

text \<open>
  A colour is the palette entry the source names: \<^verbatim>\<open>palette.FIELD\<close> with
  \<^verbatim>\<open>palette = isDarkMode ? DARK_COLORS : COLORS\<close> is \<open>(DARK_COLORS, C_FIELD)\<close> or
  \<open>(COLORS, C_FIELD)\<close>.
\<close>

datatype palette = COLORS | DARK_COLORS

datatype palette_key =
    C_DOS | C_NT | C_OPTIONAL | C_SECTION_HEADER | C_DATA_DIR | C_SECTION_DATA
  | C_OVERLAY | C_FIELD | C_MACHO_HEADER | C_LOAD_COMMAND | C_SEGMENT | C_FAT_HEADER
  | C_ELF_HEADER | C_PROGRAM_HEADER | C_IMAGE_HEADER | C_PNG_CHUNK | C_IMAGE_DATA
  | C_JPEG_SEGMENT | C_HEIC_BOX

datatype jsvalue = Num int | Str string

text \<open>
  \<^verbatim>\<open>PERegion\<close>: the fields \<^verbatim>\<open>name, offset, size, type, color, description, value,
  details, children\<close>, in this order. An absent optional field is \<open>None\<close>.
\<close>

datatype Region =
  Region (rg_name: string) (rg_offset: int) (rg_size: int) (rg_type: RegionType)
         (rg_color: "palette \<times> palette_key")
         (rg_description: "string option") (rg_value: "jsvalue option")
         (rg_details: "(string \<times> jsvalue) list option")
         (rg_children: "Region list option")

record SectionMetadata =
  sec_name :: string
  virtualAddress :: nat
  virtualSize :: nat
  pointerToRawData :: nat
  sizeOfRawData :: nat

datatype FileFormat = PE | ELF | MachO | PNG | JPEG | HEIC

record ParsedFile =
  pf_name :: string
  pf_size :: nat
  pf_data :: "byte list"
  pf_regions :: "Region list"
  pf_sectionsMetadata :: "SectionMetadata list"
  pf_isValid :: bool
  pf_error :: "string option"
  pf_format :: FileFormat

record SearchResult =
  sr_offset :: nat
  sr_size :: nat
  rva :: "nat option"
  matchVal :: jsstring

section \<open>Offset to virtual address (peParser.ts, offsetToRva)\<close>

fun offsetToRva_scan :: "nat \<Rightarrow> SectionMetadata list \<Rightarrow> nat option" where
  "offsetToRva_scan offset [] = None"
| "offsetToRva_scan offset (sec # rest) =
     (if pointerToRawData sec \<le> offset
         \<and> offset < js_add (pointerToRawData sec) (sizeOfRawData sec)
      then (let diff = offset - pointerToRawData sec
            in if diff < virtualSize sec then Some (js_add (virtualAddress sec) diff)
               else offsetToRva_scan offset rest)
      else offsetToRva_scan offset rest)"

definition offsetToRva :: "nat \<Rightarrow> SectionMetadata list \<Rightarrow> nat option" where
  "offsetToRva offset sections =
     (case offsetToRva_scan offset sections of
        Some r \<Rightarrow> Some r
      | None \<Rightarrow>
          if 0 < length sections \<and> offset < pointerToRawData (sections ! 0)
          then Some offset else None)"

text \<open>
  The wording of the specification, to compare with the scan above: a section
  \<^emph>\<open>yields a result\<close> for an offset when its raw-file range contains the offset and
  the in-section delta is below its virtual size.
\<close>

definition section_yields :: "nat \<Rightarrow> SectionMetadata \<Rightarrow> bool" where
  "section_yields offset sec \<longleftrightarrow>
     pointerToRawData sec \<le> offset
     \<and> offset < js_add (pointerToRawData sec) (sizeOfRawData sec)
     \<and> offset - pointerToRawData sec < virtualSize sec"

section \<open>Search engine (searchService.ts)\<close>

datatype SearchMode = Hex | Ascii | Unicode

text \<open>
  The platform supplies the text decoder and the regular-expression engine. A compiled
  global regular expression is its \<^verbatim>\<open>exec\<close>: given the subject and \<^verbatim>\<open>lastIndex\<close> it
  answers \<^verbatim>\<open>null\<close> (\<open>None\<close>) or the match index and the matched text; after a match
  \<^verbatim>\<open>lastIndex\<close> is the end of the match. \<^verbatim>\<open>new RegExp(query, 'g')\<close> may throw.
\<close>

type_synonym regexp = "jsstring \<Rightarrow> nat \<Rightarrow> (nat \<times> jsstring) option"

record js_platform =
  TextDecoder_latin1 :: "byte list \<Rightarrow> jsstring"
  RegExp_g :: "jsstring \<Rightarrow> js_error + regexp"

text \<open>\<^verbatim>\<open>\s\<close> of a JavaScript regular expression: white space and line terminators.\<close>

definition js_isSpace :: "16 word \<Rightarrow> bool" where
  "js_isSpace c \<longleftrightarrow>
     (let n = unat c
      in (0x09 \<le> n \<and> n \<le> 0x0D) \<or> n = 0x20 \<or> n = 0xA0 \<or> n = 0x1680
         \<or> (0x2000 \<le> n \<and> n \<le> 0x200A) \<or> n = 0x2028 \<or> n = 0x2029
         \<or> n = 0x202F \<or> n = 0x205F \<or> n = 0x3000 \<or> n = 0xFEFF)"

text \<open>\<^verbatim>\<open>query.replace(/\s+/g, '')\<close>\<close>

definition stripSpaces :: "jsstring \<Rightarrow> jsstring" where
  "stripSpaces q = filter (\<lambda>c. \<not> js_isSpace c) q"

text \<open>\<^verbatim>\<open>.replace(/0x/gi, '')\<close>: one pass, left to right, over non-overlapping matches.\<close>

fun strip0x :: "jsstring \<Rightarrow> jsstring" where
  "strip0x (a # b # rest) =
     (if a = 0x30 \<and> (b = 0x78 \<or> b = 0x58) then strip0x rest else a # strip0x (b # rest))"
| "strip0x s = s"

definition isHexDigit :: "16 word \<Rightarrow> bool" where
  "isHexDigit c \<longleftrightarrow>
     (let n = unat c
      in (0x30 \<le> n \<and> n \<le> 0x39) \<or> (0x41 \<le> n \<and> n \<le> 0x46) \<or> (0x61 \<le> n \<and> n \<le> 0x66))"

text \<open>\<^verbatim>\<open>/^[0-9A-Fa-f]+$/.test(s)\<close>\<close>

definition isHexString :: "jsstring \<Rightarrow> bool" where
  "isHexString s \<longleftrightarrow> s \<noteq> [] \<and> list_all isHexDigit s"

definition hexDigitVal :: "16 word \<Rightarrow> nat" where
  "hexDigitVal c =
     (let n = unat c
      in if 0x30 \<le> n \<and> n \<le> 0x39 then n - 0x30
         else if 0x41 \<le> n \<and> n \<le> 0x46 then n - 0x41 + 10
         else n - 0x61 + 10)"

text \<open>
  \<^verbatim>\<open>parseInt(s, 16)\<close>, on the only arguments it receives here: strings of hexadecimal
  digits (the query has passed \<open>isHexString\<close>).
\<close>

definition parseInt16 :: "jsstring \<Rightarrow> nat" where
  "parseInt16 s = foldl (\<lambda>acc c. acc * 16 + hexDigitVal c) 0 s"

text \<open>
  \<^verbatim>\<open>for (i = 0; i < cleanQuery.length; i += 2) searchBytes.push(parseInt(cleanQuery.substr(i, 2), 16))\<close>
\<close>

fun hexSearchBytes :: "jsstring \<Rightarrow> nat list" where
  "hexSearchBytes (a # b # rest) = parseInt16 [a, b] # hexSearchBytes rest"
| "hexSearchBytes [a] = [parseInt16 [a]]"
| "hexSearchBytes [] = []"

text \<open>\<^verbatim>\<open>searchBytes.push(query.charCodeAt(i))\<close> for every \<open>i\<close>.\<close>

definition asciiSearchBytes :: "jsstring \<Rightarrow> nat list" where
  "asciiSearchBytes q = map unat q"

text \<open>
  \<^verbatim>\<open>searchBytes.push(code & 0xFF); searchBytes.push((code >> 8) & 0xFF)\<close> for every
  code unit.
\<close>

fun unicodeSearchBytes :: "jsstring \<Rightarrow> nat list" where
  "unicodeSearchBytes [] = []"
| "unicodeSearchBytes (c # rest) =
     (let code = unat c
      in (code AND 0xFF) # ((drop_bit 8 code) AND 0xFF) # unicodeSearchBytes rest)"

text \<open>
  \<^verbatim>\<open>buffer[k]\<close> on a \<^verbatim>\<open>Uint8Array\<close>: \<^verbatim>\<open>undefined\<close> (\<open>None\<close>) out of range, no
  exception.
\<close>

definition bufferAt :: "byte list \<Rightarrow> nat \<Rightarrow> nat option" where
  "bufferAt buffer k = (if k < length buffer then Some (unat (buffer ! k)) else None)"

text \<open>The inner loop over \<open>j\<close>: \<open>match\<close> stays true when no position differs.\<close>

function matchAt :: "byte list \<Rightarrow> nat list \<Rightarrow> nat \<Rightarrow> nat \<Rightarrow> bool" where
  "matchAt buffer searchBytes i j =
     (if j < length searchBytes
      then (if bufferAt buffer (i + j) \<noteq> Some (searchBytes ! j) then False
            else matchAt buffer searchBytes i (j + 1))
      else True)"
  by pat_completeness auto
termination
  by (relation "measure (\<lambda>(buffer, searchBytes, i, j). length searchBytes - j)") auto

declare matchAt.simps [simp del]

text \<open>
  The outer loop \<^verbatim>\<open>for (i = 0; i <= len - sLen; i++)\<close>, the same in the three literal
  modes. \<^verbatim>\<open>len - sLen\<close> may be negative, so the test is written \<open>i + sLen \<le> len\<close>. The
  loop stops as soon as the result list holds 2000 entries.
\<close>

function scanLoop ::
  "byte list \<Rightarrow> SectionMetadata list \<Rightarrow> nat list \<Rightarrow> jsstring \<Rightarrow> nat
     \<Rightarrow> SearchResult list \<Rightarrow> SearchResult list" where
  "scanLoop buffer sectionsMetadata searchBytes mv i results =
     (if i + length searchBytes \<le> length buffer
      then (if matchAt buffer searchBytes i 0
            then (let results' = results @
                        [\<lparr>sr_offset = i, sr_size = length searchBytes,
                          rva = offsetToRva i sectionsMetadata, matchVal = mv\<rparr>]
                  in if 2000 \<le> length results' then results'
                     else scanLoop buffer sectionsMetadata searchBytes mv (i + 1) results')
            else scanLoop buffer sectionsMetadata searchBytes mv (i + 1) results)
      else results)"
  by pat_completeness auto
termination
  by (relation "measure (\<lambda>(buffer, secs, searchBytes, mv, i, results).
                           length buffer + 1 - i)") auto

declare scanLoop.simps [simp del]

text \<open>
  \<^verbatim>\<open>while ((match = regex.exec(str)) !== null) { results.push(...); if (results.length >= 2000) break; }\<close>
\<close>

function regexLoop ::
  "regexp \<Rightarrow> jsstring \<Rightarrow> SectionMetadata list \<Rightarrow> nat \<Rightarrow> SearchResult list
     \<Rightarrow> SearchResult list" where
  "regexLoop regex str sectionsMetadata lastIndex results =
     (case regex str lastIndex of
        None \<Rightarrow> results
      | Some (index, m) \<Rightarrow>
          (let results' = results @
                 [\<lparr>sr_offset = index, sr_size = length m,
                   rva = offsetToRva index sectionsMetadata, matchVal = m\<rparr>]
           in if 2000 \<le> length results' then results'
              else regexLoop regex str sectionsMetadata (index + length m) results'))"
  by pat_completeness auto
termination
  by (relation "measure (\<lambda>(regex, str, secs, lastIndex, results). 2000 - length results)")
     auto

declare regexLoop.simps [simp del]

text \<open>
  \<^verbatim>\<open>searchPE\<close>. The \<^verbatim>\<open>catch\<close> of the source logs the error and throws it again, so an
  error raised inside is the error of the call. The three errors are plain \<^verbatim>\<open>Error\<close>
  objects with the messages below.
\<close>

definition searchPE ::
  "js_platform \<Rightarrow> ParsedFile \<Rightarrow> jsstring \<Rightarrow> SearchMode \<Rightarrow> bool
     \<Rightarrow> js_error + SearchResult list" where
  "searchPE platform file query mode useRegex =
     (let sectionsMetadata = pf_sectionsMetadata file;
          buffer = pf_data file;
          len = length buffer
      in if query = [] then Inr []
         else case mode of
           Hex \<Rightarrow>
             (let cleanQuery = strip0x (stripSpaces query)
              in if length cleanQuery mod 2 \<noteq> 0 \<or> \<not> isHexString cleanQuery
                 then Inl (Error ''Invalid Hex String'')
                 else Inr (scanLoop buffer sectionsMetadata (hexSearchBytes cleanQuery)
                             cleanQuery 0 []))
         | Ascii \<Rightarrow>
             (if useRegex
              then (if 50 * 1024 * 1024 < len
                    then Inl (Error ''File too large for Regex search (max 50MB)'')
                    else (let str = TextDecoder_latin1 platform buffer
                          in bindE (RegExp_g platform query)
                               (\<lambda>regex. Inr (regexLoop regex str sectionsMetadata 0 []))))
              else Inr (scanLoop buffer sectionsMetadata (asciiSearchBytes query) query 0 []))
         | Unicode \<Rightarrow>
             (if useRegex
              then Inl (Error ''Regex not supported for Unicode (Raw) search in this version.'')
              else Inr (scanLoop buffer sectionsMetadata (unicodeSearchBytes query)
                          query 0 [])))"

section \<open>DataView\<close>

text \<open>
  The unsigned value of \<open>n\<close> bytes at an offset, little or big endian. The reads of a
  \<^verbatim>\<open>DataView\<close> throw a \<^verbatim>\<open>RangeError\<close> when the bytes are not all inside the view.
\<close>

definition le_nat :: "nat list \<Rightarrow> nat" where
  "le_nat bs = foldr (\<lambda>b acc. b + 256 * acc) bs 0"

definition uintAt :: "byte list \<Rightarrow> nat \<Rightarrow> nat \<Rightarrow> bool \<Rightarrow> nat" where
  "uintAt view off n littleEndian =
     (let bs = map unat (take n (drop off view))
      in if littleEndian then le_nat bs else le_nat (rev bs))"

definition getUint :: "nat \<Rightarrow> byte list \<Rightarrow> nat \<Rightarrow> bool \<Rightarrow> js_error + nat" where
  "getUint n view off littleEndian =
     (if off + n \<le> length view then Inr (uintAt view off n littleEndian) else Inl RangeError)"

definition getUint8 :: "byte list \<Rightarrow> nat \<Rightarrow> js_error + nat" where
  "getUint8 view off = getUint 1 view off False"

definition getUint16 :: "byte list \<Rightarrow> nat \<Rightarrow> bool \<Rightarrow> js_error + nat" where
  "getUint16 = getUint 2"

definition getUint32 :: "byte list \<Rightarrow> nat \<Rightarrow> bool \<Rightarrow> js_error + nat" where
  "getUint32 = getUint 4"

definition getBigUint64 :: "byte list \<Rightarrow> nat \<Rightarrow> bool \<Rightarrow> js_error + nat" where
  "getBigUint64 = getUint 8"

definition getInt32 :: "byte list \<Rightarrow> nat \<Rightarrow> bool \<Rightarrow> js_error + int" where
  "getInt32 view off littleEndian =
     bindE (getUint 4 view off littleEndian)
       (\<lambda>u. Inr (if u < 2 ^ 31 then int u else int u - 2 ^ 32))"

section \<open>String helpers\<close>

text \<open>
  The loop of \<^verbatim>\<open>readString\<close>: up to \<open>n\<close> bytes from \<open>off\<close>, stopping at a NUL byte;
  \<^verbatim>\<open>String.fromCharCode\<close> of a byte is the character of that code.
\<close>

fun readChars :: "byte list \<Rightarrow> nat \<Rightarrow> nat \<Rightarrow> js_error + string" where
  "readChars view off 0 = Inr []"
| "readChars view off (Suc n) =
     bindE (getUint8 view off)
       (\<lambda>charCode. if charCode = 0 then Inr []
                     else bindE (readChars view (off + 1) n)
                            (\<lambda>rest. Inr (char_of charCode # rest)))"

text \<open>\<^verbatim>\<open>readString\<close> of peParser.ts and of the Mach-O parser: no clamp.\<close>

definition readString :: "byte list \<Rightarrow> nat \<Rightarrow> nat \<Rightarrow> js_error + string" where
  "readString view offset len = readChars view offset len"

text \<open>
  \<^verbatim>\<open>readString\<close> of the image parsers:
  \<^verbatim>\<open>maxLen = Math.min(length, view.byteLength - offset)\<close>; a negative \<open>maxLen\<close> runs no
  iteration, as the truncated subtraction does here.
\<close>

definition readString_clamped :: "byte list \<Rightarrow> nat \<Rightarrow> nat \<Rightarrow> js_error + string" where
  "readString_clamped view offset len = readChars view offset (min len (length view - offset))"

definition hexChar :: "nat \<Rightarrow> char" where
  "hexChar d = ''0123456789ABCDEF'' ! d"

text \<open>\<^verbatim>\<open>val.toString(16).toUpperCase()\<close> of a non-negative integer.\<close>

function toHexUpper :: "nat \<Rightarrow> string" where
  "toHexUpper n = (if n < 16 then [hexChar n] else toHexUpper (n div 16) @ [hexChar (n mod 16)])"
  by pat_completeness auto
termination
  by (relation "measure id") auto

declare toHexUpper.simps [simp del]

definition padStart :: "string \<Rightarrow> nat \<Rightarrow> char \<Rightarrow> string" where
  "padStart s targetLength c = replicate (targetLength - length s) c @ s"

definition formatHex :: "nat \<Rightarrow> nat \<Rightarrow> string" where
  "formatHex val pad = ''0x'' @ padStart (toHexUpper val) pad CHR ''0''"

section \<open>Region construction\<close>

definition region ::
  "string \<Rightarrow> int \<Rightarrow> int \<Rightarrow> RegionType \<Rightarrow> palette \<times> palette_key \<Rightarrow> Region" where
  "region name offset sz type color = Region name offset sz type color None None None None"

definition with_description :: "string \<Rightarrow> Region \<Rightarrow> Region" where
  "with_description d r =
     Region (rg_name r) (rg_offset r) (rg_size r) (rg_type r) (rg_color r)
       (Some d) (rg_value r) (rg_details r) (rg_children r)"

definition with_value :: "jsvalue \<Rightarrow> Region \<Rightarrow> Region" where
  "with_value v r =
     Region (rg_name r) (rg_offset r) (rg_size r) (rg_type r) (rg_color r)
       (rg_description r) (Some v) (rg_details r) (rg_children r)"

definition with_details :: "(string \<times> jsvalue) list \<Rightarrow> Region \<Rightarrow> Region" where
  "with_details ds r =
     Region (rg_name r) (rg_offset r) (rg_size r) (rg_type r) (rg_color r)
       (rg_description r) (rg_value r) (Some ds) (rg_children r)"

definition with_children :: "Region list \<Rightarrow> Region \<Rightarrow> Region" where
  "with_children cs r =
     Region (rg_name r) (rg_offset r) (rg_size r) (rg_type r) (rg_color r)
       (rg_description r) (rg_value r) (rg_details r) (Some cs)"

text \<open>A \<^verbatim>\<open>FIELD\<close> region with a value, the commonest shape.\<close>

definition field :: "palette \<Rightarrow> string \<Rightarrow> nat \<Rightarrow> nat \<Rightarrow> jsvalue \<Rightarrow> Region" where
  "field palette name offset sz v =
     with_value v (region name (int offset) (int sz) FIELD (palette, C_FIELD))"

definition paletteOf :: "bool \<Rightarrow> palette" where
  "paletteOf isDarkMode = (if isDarkMode then DARK_COLORS else COLORS)"

section \<open>PNG parser (parsePNG)\<close>

definition PNG_CHUNK_TYPES :: "(string \<times> string) list" where
  "PNG_CHUNK_TYPES =
     [(''IHDR'', ''Image Header''), (''PLTE'', ''Palette''), (''IDAT'', ''Image Data''),
      (''IEND'', ''Image End''), (''tEXt'', ''Textual Data''), (''zTXt'', ''Compressed Text''),
      (''iTXt'', ''International Text''), (''bKGD'', ''Background Color''),
      (''cHRM'', ''Primary Chromaticities''), (''gAMA'', ''Gamma''), (''hIST'', ''Histogram''),
      (''pHYs'', ''Physical Pixel Dimensions''), (''sBIT'', ''Significant Bits''),
      (''sRGB'', ''Standard RGB Color Space''), (''tIME'', ''Image Last-Modification Time''),
      (''tRNS'', ''Transparency'')]"

text \<open>
  One chunk region, built in the order of the source: the details (with the CRC read),
  the two fixed children, the \<^verbatim>\<open>IHDR\<close> fields, the data child, the CRC child.
\<close>

definition pngChunkRegion ::
  "byte list \<Rightarrow> palette \<Rightarrow> nat \<Rightarrow> nat \<Rightarrow> string \<Rightarrow> string \<Rightarrow> js_error + Region" where
  "pngChunkRegion view palette offset len type desc =
     bindE (getUint32 view (offset + 8 + len) False) (\<lambda>crc.
     let details = [(''Length'', Num (int len)), (''Type'', Str type),
                    (''CRC'', Str (formatHex crc 8))];
         children = [field palette ''Length'' offset 4 (Num (int len)),
                     with_description desc (field palette ''Type'' (offset + 4) 4 (Str type))]
     in
     bindE (if type = ''IHDR'' \<and> 13 \<le> len
            then bindE (getUint32 view (offset + 8) False) (\<lambda>w.
                 bindE (getUint32 view (offset + 12) False) (\<lambda>h.
                 bindE (getUint8 view (offset + 16)) (\<lambda>bitDepth.
                 bindE (getUint8 view (offset + 17)) (\<lambda>colorType.
                 bindE (getUint8 view (offset + 18)) (\<lambda>compression.
                 bindE (getUint8 view (offset + 19)) (\<lambda>filter.
                 bindE (getUint8 view (offset + 20)) (\<lambda>interlace.
                 Inr (details @ [(''Width'', Num (int w)), (''Height'', Num (int h)),
                                 (''BitDepth'', Num (int bitDepth)),
                                 (''ColorType'', Num (int colorType))],
                      children @
                        [field palette ''Width'' (offset + 8) 4 (Num (int w)),
                         field palette ''Height'' (offset + 12) 4 (Num (int h)),
                         field palette ''BitDepth'' (offset + 16) 1 (Num (int bitDepth)),
                         field palette ''ColorType'' (offset + 17) 1 (Num (int colorType))]))))))))
            else Inr (details, children)) (\<lambda>(details', children').
     let children'' =
           (if 0 < len
            then children' @
                   [with_description
                      (if type = ''IDAT'' then ''Compressed Image Data'' else ''Chunk Data'')
                      (region ''Data'' (int (offset + 8)) (int len) IMAGE_DATA
                         (palette, C_IMAGE_DATA))]
            else children')
     in
     bindE (getUint32 view (offset + 8 + len) False) (\<lambda>crc'.
     Inr (with_children
            (children'' @ [field palette ''CRC'' (offset + 8 + len) 4 (Str (formatHex crc' 8))])
            (with_details details'
               (with_description desc
                  (region (''Chunk: '' @ type) (int offset) (int (12 + len)) PNG_CHUNK
                     (palette, C_PNG_CHUNK))))))))"

function pngLoop ::
  "byte list \<Rightarrow> palette \<Rightarrow> nat \<Rightarrow> Region list \<Rightarrow> js_error + Region list" where
  "pngLoop view palette offset regions =
     (if offset < length view
      then (if length view < offset + 8 then Inr regions
            else bindE (getUint32 view offset False) (\<lambda>len.
                 bindE (readString_clamped view (offset + 4) 4) (\<lambda>type.
                 let totalSize = 12 + len
                 in if length view < offset + totalSize then Inr regions
                    else (let desc = (case map_of PNG_CHUNK_TYPES type of
                                        Some d \<Rightarrow> d | None \<Rightarrow> ''Unknown Chunk'')
                          in bindE (pngChunkRegion view palette offset len type desc)
                               (\<lambda>chunkRegion.
                                  if type = ''IEND'' then Inr (regions @ [chunkRegion])
                                  else pngLoop view palette (offset + totalSize)
                                         (regions @ [chunkRegion]))))))
      else Inr regions)"
  by pat_completeness auto
termination
  by (relation "measure (\<lambda>(view, palette, offset, regions). length view - offset)") auto

declare pngLoop.simps [simp del]

definition parsePNG :: "byte list \<Rightarrow> string \<Rightarrow> bool \<Rightarrow> js_error + ParsedFile" where
  "parsePNG buffer fileName isDarkMode =
     (let view = buffer;
          palette = paletteOf isDarkMode;
          regions = [with_value (Str ''89 50 4E 47 0D 0A 1A 0A'')
                       (region ''PNG Signature'' 0 8 IMAGE_HEADER (palette, C_IMAGE_HEADER))]
      in bindE (pngLoop view palette 8 regions) (\<lambda>regions'.
         Inr \<lparr>pf_name = fileName, pf_size = length buffer, pf_data = view,
               pf_regions = regions', pf_sectionsMetadata = [], pf_isValid = True,
               pf_error = None, pf_format = PNG\<rparr>))"

section \<open>JPEG parser (parseJPEG)\<close>

definition JPEG_MARKERS :: "(nat \<times> string) list" where
  "JPEG_MARKERS =
     [(0xD8, ''SOI (Start of Image)''), (0xE0, ''APP0 (JFIF)''), (0xE1, ''APP1 (EXIF)''),
      (0xE2, ''APP2''), (0xE3, ''APP3''), (0xE4, ''APP4''), (0xE5, ''APP5''),
      (0xE6, ''APP6''), (0xE7, ''APP7''), (0xE8, ''APP8''), (0xE9, ''APP9''),
      (0xEA, ''APP10''), (0xEB, ''APP11''), (0xEC, ''APP12''), (0xED, ''APP13''),
      (0xEE, ''APP14''), (0xEF, ''APP15''),
      (0xDB, ''DQT (Define Quantization Table)''), (0xC0, ''SOF0 (Baseline DCT)''),
      (0xC2, ''SOF2 (Progressive DCT)''), (0xC4, ''DHT (Define Huffman Table)''),
      (0xDA, ''SOS (Start of Scan)''), (0xFE, ''COM (Comment)''),
      (0xD9, ''EOI (End of Image)''), (0xDD, ''DRI (Define Restart Interval)''),
      (0xD0, ''RST0''), (0xD1, ''RST1''), (0xD2, ''RST2''), (0xD3, ''RST3''),
      (0xD4, ''RST4''), (0xD5, ''RST5''), (0xD6, ''RST6''), (0xD7, ''RST7'')]"

text \<open>\<^verbatim>\<open>markerName.split(' ')[0]\<close>\<close>

definition firstWord :: "string \<Rightarrow> string" where
  "firstWord s = takeWhile (\<lambda>c. c \<noteq> CHR '' '') s"

definition jpegMarkerName :: "nat \<Rightarrow> string" where
  "jpegMarkerName markerByte =
     (case map_of JPEG_MARKERS markerByte of
        Some n \<Rightarrow> n
      | None \<Rightarrow> ''Unknown Marker (0xFF'' @ toHexUpper markerByte @ '')'')"

text \<open>
  The region of a marker that carries a length. The \<^verbatim>\<open>Data\<close> child has the size
  \<^verbatim>\<open>length - 2\<close>, an integer subtraction.
\<close>

definition jpegSegmentRegion ::
  "byte list \<Rightarrow> palette \<Rightarrow> nat \<Rightarrow> nat \<Rightarrow> string \<Rightarrow> nat \<Rightarrow> js_error + Region" where
  "jpegSegmentRegion view palette offset markerByte markerName len =
     (let details = [(''Length'', Num (int len))];
          children =
            [field palette ''Marker'' offset 2 (Str (''FF '' @ toHexUpper markerByte)),
             field palette ''Length'' (offset + 2) 2 (Num (int len)),
             region ''Data'' (int (offset + 4)) (int len - 2) IMAGE_DATA (palette, C_IMAGE_DATA)]
      in
      bindE (if markerByte = 0xC0 \<and> 5 < len
             then bindE (getUint8 view (offset + 4)) (\<lambda>precision.
                  bindE (getUint16 view (offset + 5) False) (\<lambda>height.
                  bindE (getUint16 view (offset + 7) False) (\<lambda>width.
                  Inr (details @ [(''Width'', Num (int width)), (''Height'', Num (int height)),
                                  (''Precision'', Num (int precision))],
                       children @
                         [field palette ''Precision'' (offset + 4) 1 (Num (int precision)),
                          field palette ''Height'' (offset + 5) 2 (Num (int height)),
                          field palette ''Width'' (offset + 7) 2 (Num (int width))]))))
             else Inr (details, children)) (\<lambda>(details', children').
      Inr (with_children children'
             (with_details details'
                (with_description markerName
                   (region (firstWord markerName) (int offset) (int (2 + len)) JPEG_SEGMENT
                      (palette, C_JPEG_SEGMENT)))))))"

text \<open>The forward scan after an \<^verbatim>\<open>SOS\<close> segment; the result is \<^verbatim>\<open>scanEnd\<close>.\<close>

function sosScan :: "byte list \<Rightarrow> nat \<Rightarrow> js_error + nat" where
  "sosScan view scanEnd =
     (if scanEnd + 1 < length view
      then bindE (getUint8 view scanEnd) (\<lambda>b.
             if b = 0xFF
             then bindE (getUint8 view (scanEnd + 1)) (\<lambda>nextByte.
                    if nextByte \<noteq> 0x00 \<and> \<not> (0xD0 \<le> nextByte \<and> nextByte \<le> 0xD7)
                    then Inr scanEnd
                    else sosScan view (scanEnd + 1 + 1))
             else sosScan view (scanEnd + 1))
      else Inr scanEnd)"
  by pat_completeness auto
termination
  by (relation "measure (\<lambda>(view, scanEnd). length view - scanEnd)") auto

declare sosScan.simps [simp del]

function jpegLoop ::
  "byte list \<Rightarrow> palette \<Rightarrow> nat \<Rightarrow> Region list \<Rightarrow> js_error + Region list" where
  "jpegLoop view palette offset regions =
     (if offset + 1 < length view
      then bindE (getUint8 view offset) (\<lambda>b0.
        if b0 \<noteq> 0xFF then jpegLoop view palette (offset + 1) regions
        else bindE (getUint8 view (offset + 1)) (\<lambda>markerByte.
          if markerByte = 0xFF then jpegLoop view palette (offset + 1) regions
          else if markerByte = 0x00 then jpegLoop view palette (offset + 2) regions
          else
            (let markerName = jpegMarkerName markerByte;
                 isStandalone = (0xD0 \<le> markerByte \<and> markerByte \<le> 0xD9) \<or> markerByte = 0x01
             in if isStandalone
                then (let regions' = regions @
                            [with_value (Str (''FF '' @ toHexUpper markerByte))
                               (with_description markerName
                                  (region (firstWord markerName) (int offset) 2 JPEG_SEGMENT
                                     (palette, C_JPEG_SEGMENT)))]
                      in if markerByte = 0xD9 then Inr regions'
                         else jpegLoop view palette (offset + 2) regions')
                else if length view < offset + 4 then Inr regions
                else bindE (getUint16 view (offset + 2) False) (\<lambda>len.
                  let totalSize = 2 + len
                  in if length view < offset + totalSize then Inr regions
                     else bindE (jpegSegmentRegion view palette offset markerByte markerName len)
                       (\<lambda>segmentRegion.
                          if markerByte = 0xDA
                          then bindE (sosScan view (offset + totalSize)) (\<lambda>scanEnd.
                                 if offset + totalSize < scanEnd
                                 then jpegLoop view palette scanEnd
                                        (regions @ [segmentRegion,
                                           with_description ''Huffman coded image data''
                                             (region ''Entropy Data'' (int (offset + totalSize))
                                                (int scanEnd - int (offset + totalSize))
                                                IMAGE_DATA (palette, C_IMAGE_DATA))])
                                 else jpegLoop view palette (offset + totalSize)
                                        (regions @ [segmentRegion]))
                          else jpegLoop view palette (offset + totalSize)
                                 (regions @ [segmentRegion]))))))
      else Inr regions)"
  by pat_completeness auto
termination
  by (relation "measure (\<lambda>(view, palette, offset, regions). length view - offset)") auto

declare jpegLoop.simps [simp del]

definition parseJPEG :: "byte list \<Rightarrow> string \<Rightarrow> bool \<Rightarrow> js_error + ParsedFile" where
  "parseJPEG buffer fileName isDarkMode =
     (let view = buffer;
          palette = paletteOf isDarkMode
      in bindE (jpegLoop view palette 0 []) (\<lambda>regions.
         Inr \<lparr>pf_name = fileName, pf_size = length buffer, pf_data = view,
               pf_regions = regions, pf_sectionsMetadata = [], pf_isValid = True,
               pf_error = None, pf_format = JPEG\<rparr>))"


section \<open>PE parser (peParser.ts, parsePE)\<close>

definition MACHINE_TYPES :: "(nat \<times> string) list" where
  "MACHINE_TYPES =
     [(0x014c, ''Intel 386 (x86)''), (0x8664, ''AMD64 (x64)''), (0x0200, ''Intel Itanium''),
      (0xaa64, ''ARM64''), (0x01c0, ''ARM Thumb-2'')]"

text \<open>
  The flag tables in the order of \<^verbatim>\<open>Object.keys\<close>: integer keys ascending, which is the
  order in which the source lists them.
\<close>

definition FILE_CHARACTERISTICS :: "(nat \<times> string) list" where
  "FILE_CHARACTERISTICS =
     [(0x0001, ''RELOCS_STRIPPED''), (0x0002, ''EXECUTABLE_IMAGE''),
      (0x0004, ''LINE_NUMS_STRIPPED''), (0x0008, ''LOCAL_SYMS_STRIPPED''),
      (0x0010, ''AGGRESSIVE_WS_TRIM''), (0x0020, ''LARGE_ADDRESS_AWARE''),
      (0x0080, ''BYTES_REVERSED_LO''), (0x0100, ''32BIT_MACHINE''),
      (0x0200, ''DEBUG_STRIPPED''), (0x0400, ''REMOVABLE_RUN_FROM_SWAP''),
      (0x0800, ''NET_RUN_FROM_SWAP''), (0x1000, ''SYSTEM''), (0x2000, ''DLL''),
      (0x4000, ''UP_SYSTEM_ONLY''), (0x8000, ''BYTES_REVERSED_HI'')]"

definition DLL_CHARACTERISTICS :: "(nat \<times> string) list" where
  "DLL_CHARACTERISTICS =
     [(0x0020, ''HIGH_ENTROPY_VA''), (0x0040, ''DYNAMIC_BASE''), (0x0080, ''FORCE_INTEGRITY''),
      (0x0100, ''NX_COMPAT''), (0x0200, ''NO_ISOLATION''), (0x0400, ''NO_SEH''),
      (0x0800, ''NO_BIND''), (0x1000, ''APPCONTAINER''), (0x2000, ''WDM_DRIVER''),
      (0x4000, ''GUARD_CF''), (0x8000, ''TERMINAL_SERVER_AWARE'')]"

definition SUBSYSTEMS :: "(nat \<times> string) list" where
  "SUBSYSTEMS =
     [(1, ''NATIVE''), (2, ''WINDOWS_GUI''), (3, ''WINDOWS_CUI''), (5, ''OS2_CUI''),
      (7, ''POSIX_CUI''), (9, ''WINDOWS_CE_GUI''), (10, ''EFI_APPLICATION''),
      (11, ''EFI_BOOT_SERVICE_DRIVER''), (12, ''EFI_RUNTIME_DRIVER''), (13, ''EFI_ROM''),
      (14, ''XBOX''), (16, ''WINDOWS_BOOT_APPLICATION'')]"

text \<open>\<^verbatim>\<open>table[key] || fallback\<close>\<close>

definition lookupOr :: "('k \<times> string) list \<Rightarrow> 'k \<Rightarrow> string \<Rightarrow> string" where
  "lookupOr table key fallback = (case map_of table key of Some v \<Rightarrow> v | None \<Rightarrow> fallback)"

fun joinWith :: "string \<Rightarrow> string list \<Rightarrow> string" where
  "joinWith sep [] = []"
| "joinWith sep [x] = x"
| "joinWith sep (x # y # rest) = x @ sep @ joinWith sep (y # rest)"

definition getFlags :: "nat \<Rightarrow> (nat \<times> string) list \<Rightarrow> string" where
  "getFlags val table =
     (let flags = map snd (filter (\<lambda>(key, name). val AND key = key) table)
      in if 0 < length flags then joinWith '', '' flags else ''None'')"

definition hexCharLower :: "nat \<Rightarrow> char" where
  "hexCharLower d = ''0123456789abcdef'' ! d"

text \<open>\<^verbatim>\<open>val.toString(16)\<close> of a non-negative integer.\<close>

function toHexLower :: "nat \<Rightarrow> string" where
  "toHexLower n =
     (if n < 16 then [hexCharLower n] else toHexLower (n div 16) @ [hexCharLower (n mod 16)])"
  by pat_completeness auto
termination
  by (relation "measure id") auto

declare toHexLower.simps [simp del]

definition fieldD :: "palette \<Rightarrow> string \<Rightarrow> nat \<Rightarrow> nat \<Rightarrow> jsvalue \<Rightarrow> string \<Rightarrow> Region" where
  "fieldD palette name offset sz v description =
     with_description description (field palette name offset sz v)"

text \<open>Runs the reads of a list of field builders from left to right.\<close>

fun sequenceE :: "('e + 'a) list \<Rightarrow> 'e + 'a list" where
  "sequenceE [] = Inr []"
| "sequenceE (m # ms) = bindE m (\<lambda>x. bindE (sequenceE ms) (\<lambda>xs. Inr (x # xs)))"

text \<open>The shapes of the pushes into \<^verbatim>\<open>fields\<close>: a read and the region built from it.\<close>

definition fieldHex32 :: "byte list \<Rightarrow> palette \<Rightarrow> string \<Rightarrow> nat \<Rightarrow> js_error + Region" where
  "fieldHex32 view palette name off =
     bindE (getUint32 view off True) (\<lambda>v. Inr (field palette name off 4 (Str (formatHex v 0))))"

definition fieldHex32D ::
  "byte list \<Rightarrow> palette \<Rightarrow> string \<Rightarrow> nat \<Rightarrow> string \<Rightarrow> js_error + Region" where
  "fieldHex32D view palette name off description =
     bindE (getUint32 view off True)
       (\<lambda>v. Inr (fieldD palette name off 4 (Str (formatHex v 0)) description))"

definition fieldNum8 :: "byte list \<Rightarrow> palette \<Rightarrow> string \<Rightarrow> nat \<Rightarrow> js_error + Region" where
  "fieldNum8 view palette name off =
     bindE (getUint8 view off) (\<lambda>v. Inr (field palette name off 1 (Num (int v))))"

definition fieldNum16 :: "byte list \<Rightarrow> palette \<Rightarrow> string \<Rightarrow> nat \<Rightarrow> js_error + Region" where
  "fieldNum16 view palette name off =
     bindE (getUint16 view off True) (\<lambda>v. Inr (field palette name off 2 (Num (int v))))"

definition fieldNum32 :: "byte list \<Rightarrow> palette \<Rightarrow> string \<Rightarrow> nat \<Rightarrow> js_error + Region" where
  "fieldNum32 view palette name off =
     bindE (getUint32 view off True) (\<lambda>v. Inr (field palette name off 4 (Num (int v))))"

text \<open>
  \<^verbatim>\<open>is64Bit ? view.getBigUint64(off, true) : BigInt(view.getUint32(off, true))\<close>
\<close>

definition getPointer :: "byte list \<Rightarrow> nat \<Rightarrow> bool \<Rightarrow> js_error + nat" where
  "getPointer view off is64Bit =
     (if is64Bit then getBigUint64 view off True else getUint32 view off True)"

definition fieldPtrLower ::
  "byte list \<Rightarrow> palette \<Rightarrow> bool \<Rightarrow> string \<Rightarrow> nat \<Rightarrow> js_error + Region" where
  "fieldPtrLower view palette is64Bit name off =
     bindE (getPointer view off is64Bit)
       (\<lambda>v. Inr (field palette name off (if is64Bit then 8 else 4) (Str (''0x'' @ toHexLower v))))"

definition dirNames :: "string list" where
  "dirNames =
     [''Export'', ''Import'', ''Resource'', ''Exception'', ''Security'', ''BaseReloc'', ''Debug'',
      ''Architecture'', ''GlobalPtr'', ''TLS'', ''LoadConfig'', ''BoundImport'', ''IAT'',
      ''DelayImport'', ''COM'', ''Reserved'']"

text \<open>The loop over the data directories; the result is the children of the region.\<close>

function peDataDirs ::
  "byte list \<Rightarrow> palette \<Rightarrow> nat \<Rightarrow> nat \<Rightarrow> nat \<Rightarrow> nat \<Rightarrow> Region list
     \<Rightarrow> js_error + Region list" where
  "peDataDirs view palette dataDirsOffset optEnd safeNumDirs i children =
     (if i < safeNumDirs
      then (let currentDirOffset = dataDirsOffset + i * 8
            in if optEnd < currentDirOffset + 8 then Inr children
               else bindE (getUint32 view currentDirOffset True) (\<lambda>rva.
                    bindE (getUint32 view (currentDirOffset + 4) True) (\<lambda>sz.
                    peDataDirs view palette dataDirsOffset optEnd safeNumDirs (i + 1)
                      (if 0 < sz \<or> 0 < rva
                       then children @
                         [with_children
                            [field palette ''RVA'' currentDirOffset 4 (Str (formatHex rva 8)),
                             field palette ''Size'' (currentDirOffset + 4) 4 (Str (formatHex sz 8))]
                            (with_details [(''RVA'', Str (formatHex rva 8)),
                                           (''Size'', Str (formatHex sz 8))]
                               (region (dirNames ! i @ '' Directory'') (int currentDirOffset) 8
                                  DATA_DIRECTORY (palette, C_DATA_DIR)))]
                       else children))))
      else Inr children)"
  by pat_completeness auto
termination
  by (relation "measure (\<lambda>(view, palette, d, e, safeNumDirs, i, children). safeNumDirs - i)")
     auto

declare peDataDirs.simps [simp del]

text \<open>
  The body of \<^verbatim>\<open>if (sizeOfOptionalHeader > 0)\<close>: the children of the optional header,
  that is the fields followed by the data directories region.
\<close>

definition peOptionalHeaderChildren ::
  "byte list \<Rightarrow> palette \<Rightarrow> nat \<Rightarrow> nat \<Rightarrow> nat \<Rightarrow> js_error + Region list" where
  "peOptionalHeaderChildren view palette optHeaderOffset sizeOfOptionalHeader magic =
     (let is64Bit = (magic = 0x20b);
          off = optHeaderOffset;
          w = (if is64Bit then 8 else 4);
          off1 = off + 24;
          off2 = (if \<not> is64Bit then off1 + 4 else off1);
          off3 = off2 + w;
          off4 = off3 + 4 + 4;
          off5 = off4 + 2 + 2 + 2 + 2 + 2 + 2;
          off6 = off5 + 4 + 4 + 4 + 4;
          off7 = off6 + 2 + 2;
          off8 = off7 + w + w + w + w
      in
      bindE (sequenceE
        ([Inr (fieldD palette ''Magic'' off 2 (Str (formatHex magic 4))
                 (if is64Bit then ''PE32+ (64-bit)'' else ''PE32 (32-bit)'')),
          fieldNum8 view palette ''MajorLinkerVersion'' (off + 2),
          fieldNum8 view palette ''MinorLinkerVersion'' (off + 3),
          fieldHex32 view palette ''SizeOfCode'' (off + 4),
          fieldHex32 view palette ''SizeOfInitializedData'' (off + 8),
          fieldHex32 view palette ''SizeOfUninitializedData'' (off + 12),
          fieldHex32D view palette ''AddressOfEntryPoint'' (off + 16) ''RVA of Entry Point'',
          fieldHex32 view palette ''BaseOfCode'' (off + 20)]
         @ (if \<not> is64Bit then [fieldHex32 view palette ''BaseOfData'' off1] else [])
         @ [bindE (getPointer view off2 is64Bit) (\<lambda>imageBase.
              Inr (fieldD palette ''ImageBase'' off2 w (Str (''0x'' @ toHexUpper imageBase))
                     ''Preferred load address'')),
            fieldHex32D view palette ''SectionAlignment'' off3 ''Alignment in memory'',
            fieldHex32D view palette ''FileAlignment'' (off3 + 4) ''Alignment on disk'',
            fieldNum16 view palette ''MajorOSVersion'' off4,
            fieldNum16 view palette ''MinorOSVersion'' (off4 + 2),
            fieldNum16 view palette ''MajorImageVersion'' (off4 + 2 + 2),
            fieldNum16 view palette ''MinorImageVersion'' (off4 + 2 + 2 + 2),
            fieldNum16 view palette ''MajorSubsystemVersion'' (off4 + 2 + 2 + 2 + 2),
            fieldNum16 view palette ''MinorSubsystemVersion'' (off4 + 2 + 2 + 2 + 2 + 2),
            fieldNum32 view palette ''Win32VersionValue'' off5,
            fieldHex32 view palette ''SizeOfImage'' (off5 + 4),
            fieldHex32 view palette ''SizeOfHeaders'' (off5 + 4 + 4),
            fieldHex32 view palette ''CheckSum'' (off5 + 4 + 4 + 4),
            bindE (getUint16 view off6 True) (\<lambda>subsystem.
              Inr (fieldD palette ''Subsystem'' off6 2 (Str (formatHex subsystem 4))
                     (lookupOr SUBSYSTEMS subsystem ''Unknown''))),
            bindE (getUint16 view (off6 + 2) True) (\<lambda>dllChar.
              Inr (fieldD palette ''DllCharacteristics'' (off6 + 2) 2 (Str (formatHex dllChar 4))
                     (getFlags dllChar DLL_CHARACTERISTICS))),
            fieldPtrLower view palette is64Bit ''SizeOfStackReserve'' off7,
            fieldPtrLower view palette is64Bit ''SizeOfStackCommit'' (off7 + w),
            fieldPtrLower view palette is64Bit ''SizeOfHeapReserve'' (off7 + w + w),
            fieldPtrLower view palette is64Bit ''SizeOfHeapCommit'' (off7 + w + w + w),
            fieldHex32 view palette ''LoaderFlags'' off8])) (\<lambda>fields0.
      bindE (getUint32 view (off8 + 4) True) (\<lambda>numberOfRvaAndSizes.
      let fields = fields0 @
                   [field palette ''NumberOfRvaAndSizes'' (off8 + 4) 4
                      (Num (int numberOfRvaAndSizes))];
          dataDirsOffset = off8 + 4 + 4;
          safeNumDirs = min numberOfRvaAndSizes 16
      in bindE (peDataDirs view palette dataDirsOffset (optHeaderOffset + sizeOfOptionalHeader)
                  safeNumDirs 0 []) (\<lambda>dirs.
         Inr (fields @
              [with_children dirs
                 (region ''Data Directories'' (int dataDirsOffset) (int (safeNumDirs * 8))
                    DATA_DIRECTORY (palette, C_DATA_DIR))])))))"

text \<open>
  The loop over the section headers. The state is the section metadata, the children of
  the section headers region and the section data regions, each in push order.
\<close>

function peSections ::
  "byte list \<Rightarrow> palette \<Rightarrow> nat \<Rightarrow> nat \<Rightarrow> nat
     \<Rightarrow> SectionMetadata list \<times> Region list \<times> Region list
     \<Rightarrow> js_error + SectionMetadata list \<times> Region list \<times> Region list" where
  "peSections view palette sectionHeadersOffset numberOfSections i st =
     (if i < numberOfSections
      then (let offset = sectionHeadersOffset + i * 40
            in bindE (readString view offset 8) (\<lambda>name.
               bindE (getUint32 view (offset + 8) True) (\<lambda>virtualSize.
               bindE (getUint32 view (offset + 12) True) (\<lambda>virtualAddress.
               bindE (getUint32 view (offset + 16) True) (\<lambda>sizeOfRawData.
               bindE (getUint32 view (offset + 20) True) (\<lambda>pointerToRawData.
               let meta = \<lparr>sec_name = name, virtualAddress = virtualAddress,
                            virtualSize = virtualSize, pointerToRawData = pointerToRawData,
                            sizeOfRawData = sizeOfRawData\<rparr>;
                   header =
                     with_details
                       [(''Name'', Str name), (''VirtualSize'', Str (formatHex virtualSize 8)),
                        (''VirtualAddress'', Str (formatHex virtualAddress 8)),
                        (''RawSize'', Str (formatHex sizeOfRawData 8)),
                        (''RawPtr'', Str (formatHex pointerToRawData 8))]
                       (region (''Header: '' @ name) (int offset) 40 SECTION_HEADER
                          (palette, C_SECTION_HEADER));
                   dataRegions =
                     (if 0 < sizeOfRawData \<and> 0 < pointerToRawData
                         \<and> pointerToRawData < length view
                      then [with_description (''Raw data for section '' @ name)
                              (region (''Section: '' @ name) (int pointerToRawData)
                                 (int (min sizeOfRawData (length view - pointerToRawData)))
                                 SECTION_DATA (palette, C_SECTION_DATA))]
                      else [])
               in case st of (sectionsMetadata, headers, sectionDataRegions) \<Rightarrow>
                    peSections view palette sectionHeadersOffset numberOfSections (i + 1)
                      (sectionsMetadata @ [meta], headers @ [header],
                       sectionDataRegions @ dataRegions)))))))
      else Inr st)"
  by pat_completeness auto
termination
  by (relation "measure (\<lambda>(view, palette, s, numberOfSections, i, st). numberOfSections - i)")
     auto

declare peSections.simps [simp del]

definition peInvalid :: "byte list \<Rightarrow> string \<Rightarrow> Region list \<Rightarrow> string \<Rightarrow> ParsedFile" where
  "peInvalid buffer fileName regions msg =
     \<lparr>pf_name = fileName, pf_size = length buffer, pf_data = buffer, pf_regions = regions,
       pf_sectionsMetadata = [], pf_isValid = False, pf_error = Some msg, pf_format = PE\<rparr>"

text \<open>
  Everything after the check of the PE signature. \<open>toISOString\<close> stands for
  \<^verbatim>\<open>new Date(ms).toISOString()\<close> of the platform.
\<close>

definition peAfterSignature ::
  "(nat \<Rightarrow> string) \<Rightarrow> byte list \<Rightarrow> string \<Rightarrow> palette \<Rightarrow> Region list \<Rightarrow> nat
     \<Rightarrow> js_error + ParsedFile" where
  "peAfterSignature toISOString view fileName palette regions e_lfanew =
     (let signatureField =
            field palette ''Signature'' e_lfanew 4
              (Str (''PE'' @ [CHR 0x5C, CHR ''0'', CHR 0x5C, CHR ''0'']));
          fileHeaderOffset = e_lfanew + 4
      in
      bindE (getUint16 view fileHeaderOffset True) (\<lambda>machine.
      bindE (getUint16 view (fileHeaderOffset + 2) True) (\<lambda>numberOfSections.
      bindE (getUint32 view (fileHeaderOffset + 4) True) (\<lambda>timeDateStamp.
      bindE (getUint32 view (fileHeaderOffset + 8) True) (\<lambda>pointerToSymbolTable.
      bindE (getUint32 view (fileHeaderOffset + 12) True) (\<lambda>numberOfSymbols.
      bindE (getUint16 view (fileHeaderOffset + 16) True) (\<lambda>sizeOfOptionalHeader.
      bindE (getUint16 view (fileHeaderOffset + 18) True) (\<lambda>characteristics.
      let fileHeaderRegion =
            with_children
              [fieldD palette ''Machine'' fileHeaderOffset 2 (Str (formatHex machine 4))
                 (lookupOr MACHINE_TYPES machine ''Unknown''),
               fieldD palette ''NumberOfSections'' (fileHeaderOffset + 2) 2
                 (Num (int numberOfSections)) ''Number of Sections'',
               fieldD palette ''TimeDateStamp'' (fileHeaderOffset + 4) 4
                 (Str (formatHex timeDateStamp 8)) (toISOString (timeDateStamp * 1000)),
               fieldD palette ''PointerToSymbolTable'' (fileHeaderOffset + 8) 4
                 (Str (formatHex pointerToSymbolTable 8)) ''Offset to COFF symbol table'',
               fieldD palette ''NumberOfSymbols'' (fileHeaderOffset + 12) 4
                 (Num (int numberOfSymbols)) ''Number of symbols'',
               fieldD palette ''SizeOfOptionalHeader'' (fileHeaderOffset + 16) 2
                 (Num (int sizeOfOptionalHeader)) ''Size of the Optional Header'',
               fieldD palette ''Characteristics'' (fileHeaderOffset + 18) 2
                 (Str (formatHex characteristics 4))
                 (getFlags characteristics FILE_CHARACTERISTICS)]
              (with_details
                 [(''Machine'', Str (formatHex machine 4)),
                  (''NumberOfSections'', Num (int numberOfSections)),
                  (''Characteristics'', Str (formatHex characteristics 4))]
                 (region ''File Header'' (int fileHeaderOffset) 20 FILE_HEADER (palette, C_NT)));
          optHeaderOffset = fileHeaderOffset + 20
      in
      bindE (if 0 < sizeOfOptionalHeader then getUint16 view optHeaderOffset True else Inr 0)
        (\<lambda>magic.
      bindE (if 0 < sizeOfOptionalHeader
             then peOptionalHeaderChildren view palette optHeaderOffset sizeOfOptionalHeader magic
             else Inr []) (\<lambda>optionalChildren.
      let optionalHeaderRegion =
            with_details [(''Magic'', Str (formatHex magic 4))]
              (with_children optionalChildren
                 (region ''Optional Header'' (int optHeaderOffset) (int sizeOfOptionalHeader)
                    OPTIONAL_HEADER (palette, C_OPTIONAL)));
          ntHeadersRegion =
            with_children [signatureField, fileHeaderRegion, optionalHeaderRegion]
              (region ''NT Headers'' (int e_lfanew) (int (4 + 20 + sizeOfOptionalHeader))
                 NT_HEADERS (palette, C_NT));
          regions1 = regions @ [ntHeadersRegion];
          sectionHeadersOffset = optHeaderOffset + sizeOfOptionalHeader
      in
      bindE (peSections view palette sectionHeadersOffset numberOfSections 0 ([], [], []))
        (\<lambda>(sectionsMetadata, headers, sectionDataRegions).
      let sectionHeadersRegion =
            with_children headers
              (region ''Section Headers'' (int sectionHeadersOffset) (int (numberOfSections * 40))
                 SECTION_HEADER (palette, C_SECTION_HEADER));
          regions2 = regions1 @ [sectionHeadersRegion] @ sort_key rg_offset sectionDataRegions;
          lastRegion = regions2 ! (length regions2 - 1);
          endOfLastRegion = rg_offset lastRegion + rg_size lastRegion;
          regions3 =
            (if endOfLastRegion < int (length view)
             then regions2 @
                    [with_description ''Data appended to the end of the PE file (not mapped)''
                       (region ''Overlay / EOF'' endOfLastRegion
                          (int (length view) - endOfLastRegion) OVERLAY (palette, C_OVERLAY))]
             else regions2)
      in Inr \<lparr>pf_name = fileName, pf_size = length view, pf_data = view,
               pf_regions = regions3, pf_sectionsMetadata = sectionsMetadata,
               pf_isValid = True, pf_error = None, pf_format = PE\<rparr>)))))))))))"

definition parsePE ::
  "(nat \<Rightarrow> string) \<Rightarrow> byte list \<Rightarrow> string \<Rightarrow> bool \<Rightarrow> js_error + ParsedFile" where
  "parsePE toISOString buffer fileName isDarkMode =
     (let view = buffer;
          palette = paletteOf isDarkMode
      in if length view < 64 then Inr (peInvalid buffer fileName [] ''File too small'')
         else bindE (getUint16 view 0 True) (\<lambda>e_magic.
           if e_magic \<noteq> 0x5A4D
           then Inr (peInvalid buffer fileName [] ''Invalid DOS signature (not MZ)'')
           else bindE (getUint32 view 0x3C True) (\<lambda>e_lfanew.
             let regions =
                   [with_details [(''e_magic'', Str (formatHex e_magic 4)),
                                  (''e_lfanew'', Str (formatHex e_lfanew 8))]
                      (with_description ''Legacy DOS Header''
                         (region ''DOS Header'' 0 64 DOS_HEADER (palette, C_DOS)))]
             in if length view < e_lfanew + 4
                then Inr (peInvalid buffer fileName regions ''Invalid PE offset'')
                else bindE (getUint32 view e_lfanew True) (\<lambda>signature.
                  if signature \<noteq> 0x00004550
                  then Inr (peInvalid buffer fileName regions ''Invalid PE signature'')
                  else peAfterSignature toISOString view fileName palette regions e_lfanew))))"

section \<open>Mach-O parser (parseMachOAtOffset, parseMachO)\<close>

definition MAGIC_32_LE :: nat where "MAGIC_32_LE = 0xFEEDFACE"
definition MAGIC_32_BE :: nat where "MAGIC_32_BE = 0xCEFAEDFE"
definition MAGIC_64_LE :: nat where "MAGIC_64_LE = 0xFEEDFACF"
definition MAGIC_64_BE :: nat where "MAGIC_64_BE = 0xCFFAEDFE"
definition FAT_MAGIC_BE :: nat where "FAT_MAGIC_BE = 0xCAFEBABE"
definition FAT_CIGAM_LE :: nat where "FAT_CIGAM_LE = 0xBEBAFECA"
definition FAT_MAGIC_64_BE :: nat where "FAT_MAGIC_64_BE = 0xCAFEBABF"
definition FAT_CIGAM_64_LE :: nat where "FAT_CIGAM_64_LE = 0xBFBAFECA"

text \<open>
  The keys of \<^verbatim>\<open>LC_TYPES\<close> as the numbers they are in JavaScript:
  \<^verbatim>\<open>0x22 | LC_REQ_DYLD\<close> is a 32-bit signed result, \<open>-2147483614\<close>.
\<close>

definition LC_TYPES :: "(int \<times> string) list" where
  "LC_TYPES =
     [(0x1, ''LC_SEGMENT''), (0x2, ''LC_SYMTAB''), (0x3, ''LC_SYMSEG''), (0x4, ''LC_THREAD''),
      (0x5, ''LC_UNIXTHREAD''), (0x6, ''LC_LOADFVMLIB''), (0x7, ''LC_IDFVMLIB''),
      (0x8, ''LC_IDENT''), (0x9, ''LC_FVMFILE''), (0xa, ''LC_PREPAGE''), (0xb, ''LC_DYSYMTAB''),
      (0xc, ''LC_LOAD_DYLIB''), (0xd, ''LC_ID_DYLIB''), (0xe, ''LC_LOAD_DYLINKER''),
      (0xf, ''LC_ID_DYLINKER''), (0x10, ''LC_PREBOUND_DYLIB''), (0x11, ''LC_ROUTINES''),
      (0x12, ''LC_SUB_FRAMEWORK''), (0x13, ''LC_SUB_UMBRELLA''), (0x14, ''LC_SUB_CLIENT''),
      (0x15, ''LC_SUB_LIBRARY''), (0x16, ''LC_TWOLEVEL_HINTS''), (0x17, ''LC_PREBIND_CKSUM''),
      (0x18, ''LC_LOAD_WEAK_DYLIB''), (0x19, ''LC_SEGMENT_64''), (0x1a, ''LC_ROUTINES_64''),
      (0x1b, ''LC_UUID''), (0x1c, ''LC_RPATH''), (0x1d, ''LC_CODE_SIGNATURE''),
      (0x1e, ''LC_SEGMENT_SPLIT_INFO''), (0x1f, ''LC_REEXPORT_DYLIB''),
      (0x20, ''LC_LAZY_LOAD_DYLIB''), (0x21, ''LC_ENCRYPTION_INFO''), (0x22, ''LC_DYLD_INFO''),
      (- 2147483614, ''LC_DYLD_INFO_ONLY''), (0x23, ''LC_LOAD_UPWARD_DYLIB''),
      (0x24, ''LC_VERSION_MIN_MACOSX''), (0x25, ''LC_VERSION_MIN_IPHONEOS''),
      (0x26, ''LC_FUNCTION_STARTS''), (0x27, ''LC_DYLD_ENVIRONMENT''), (0x28, ''LC_MAIN''),
      (0x29, ''LC_DATA_IN_CODE''), (0x2A, ''LC_SOURCE_VERSION''),
      (0x2B, ''LC_DYLIB_CODE_SIGN_DRS''), (0x2C, ''LC_ENCRYPTION_INFO_64''),
      (0x2D, ''LC_LINKER_OPTION''), (0x2E, ''LC_LINKER_OPTIMIZATION_HINT''),
      (0x32, ''LC_BUILD_VERSION'')]"

definition CPU_TYPES :: "(int \<times> string) list" where
  "CPU_TYPES = [(7, ''x86''), (0x1000007, ''x86_64''), (12, ''ARM''), (0x100000C, ''ARM64'')]"

text \<open>\<^verbatim>\<open>formatHex\<close> of a signed number: \<^verbatim>\<open>toString(16)\<close> writes a minus sign.\<close>

definition formatHexInt :: "int \<Rightarrow> nat \<Rightarrow> string" where
  "formatHexInt val pad =
     ''0x'' @ padStart (if val < 0 then ''-'' @ toHexUpper (nat (- val))
                        else toHexUpper (nat val)) pad CHR ''0''"

definition cpuNameOf :: "int \<Rightarrow> string" where
  "cpuNameOf cpuType = lookupOr CPU_TYPES cpuType (formatHexInt cpuType 0)"

text \<open>
  \<^verbatim>\<open>isSeg64 ? view.getBigUint64(o64, isLE) : BigInt(view.getUint32(o32, isLE))\<close>
\<close>

definition getSegWord :: "byte list \<Rightarrow> bool \<Rightarrow> nat \<Rightarrow> nat \<Rightarrow> bool \<Rightarrow> js_error + nat" where
  "getSegWord view isSeg64 o64 o32 isLE =
     (if isSeg64 then getBigUint64 view o64 isLE else getUint32 view o32 isLE)"

text \<open>
  The loop over the section headers of one segment command. The state is \<^verbatim>\<open>sectOffset\<close>,
  the children of the command region and the section metadata.
\<close>

function machoSections ::
  "byte list \<Rightarrow> nat \<Rightarrow> palette \<Rightarrow> string \<Rightarrow> bool \<Rightarrow> bool \<Rightarrow> nat \<Rightarrow> nat
     \<Rightarrow> nat \<times> Region list \<times> SectionMetadata list
     \<Rightarrow> js_error + nat \<times> Region list \<times> SectionMetadata list" where
  "machoSections view offset palette prefix isLE isSeg64 nSects s st =
     (case st of (sectOffset, children, sectionsMetadata) \<Rightarrow>
      if s < nSects
      then (let sectionHeaderSize = (if isSeg64 then 80 else 68)
            in if length view < sectOffset + sectionHeaderSize then Inr st
               else bindE (readString view sectOffset 16) (\<lambda>sName.
                    bindE (readString view (sectOffset + 16) 16) (\<lambda>segNameRef.
                    bindE (getSegWord view isSeg64 (sectOffset + 32) (sectOffset + 32) isLE)
                      (\<lambda>sAddr.
                    bindE (getSegWord view isSeg64 (sectOffset + 40) (sectOffset + 36) isLE)
                      (\<lambda>sSize.
                    bindE (getUint32 view (sectOffset + (if isSeg64 then 48 else 40)) isLE)
                      (\<lambda>sOffset.
                    let sSizeNum = js_round sSize;
                        sOffsetNum = sOffset;
                        sAddrNum = js_round sAddr;
                        absoluteSectionOffset = offset + sOffsetNum;
                        header =
                          with_details
                            [(''Name'', Str sName), (''Segment'', Str segNameRef),
                             (''Address'', Str (formatHex sAddr 0)),
                             (''Size'', Str (formatHex sSize 0)),
                             (''Offset'', Str (formatHex sOffset 0)),
                             (''RealOffset'', Str (formatHex absoluteSectionOffset 0))]
                            (region (''Section: '' @ sName) (int sectOffset)
                               (int sectionHeaderSize) SECTION_HEADER
                               (palette, C_SECTION_HEADER));
                        meta = \<lparr>sec_name = prefix @ segNameRef @ ''.'' @ sName,
                                 virtualAddress = sAddrNum, virtualSize = sSizeNum,
                                 pointerToRawData = absoluteSectionOffset,
                                 sizeOfRawData = sSizeNum\<rparr>
                    in machoSections view offset palette prefix isLE isSeg64 nSects (s + 1)
                         (sectOffset + sectionHeaderSize, children @ [header],
                          sectionsMetadata @ [meta])))))))
      else Inr st)"
  by pat_completeness auto
termination
  by (relation "measure (\<lambda>(view, offset, palette, prefix, isLE, isSeg64, nSects, s, st).
                           nSects - s)") auto

declare machoSections.simps [simp del]

text \<open>
  The body of \<^verbatim>\<open>if (cmd === 0x1 || cmd === 0x19)\<close> for one command: the details and
  children added to the command region, the segment regions pushed to \<^verbatim>\<open>regions\<close> and
  the section metadata pushed.
\<close>

definition machoSegment ::
  "byte list \<Rightarrow> nat \<Rightarrow> palette \<Rightarrow> string \<Rightarrow> bool \<Rightarrow> string \<Rightarrow> nat \<Rightarrow> nat \<Rightarrow> nat \<Rightarrow> nat
     \<Rightarrow> js_error + (string \<times> jsvalue) list \<times> Region list \<times> Region list
                     \<times> SectionMetadata list" where
  "machoSegment view offset palette prefix isLE cpuName headerSize sizeofCmds
       currentCmdOffset cmd =
     (let isSeg64 = (cmd = 0x19)
      in if currentCmdOffset + (if isSeg64 then 72 else 56) \<le> length view
         then bindE (readString view (currentCmdOffset + 8) 16) (\<lambda>segName.
              bindE (getSegWord view isSeg64 (currentCmdOffset + 24) (currentCmdOffset + 24) isLE)
                (\<lambda>vmAddr.
              bindE (getSegWord view isSeg64 (currentCmdOffset + 32) (currentCmdOffset + 28) isLE)
                (\<lambda>vmSize.
              bindE (getSegWord view isSeg64 (currentCmdOffset + 40) (currentCmdOffset + 32) isLE)
                (\<lambda>fileOff.
              bindE (getSegWord view isSeg64 (currentCmdOffset + 48) (currentCmdOffset + 36) isLE)
                (\<lambda>fileSize.
              bindE (getUint32 view (currentCmdOffset + (if isSeg64 then 64 else 48)) isLE)
                (\<lambda>nSects.
              bindE (machoSections view offset palette prefix isLE isSeg64 nSects 0
                       (currentCmdOffset + (if isSeg64 then 72 else 56), [], []))
                (\<lambda>(sectOffset, sectionHeaders, sectionsMetadata).
              let fileOffNum = js_round fileOff;
                  fileSizeNum = js_round fileSize;
                  absoluteSegmentOffset = js_add offset fileOffNum;
                  segmentRegions =
                    (if 0 < fileSizeNum \<and> js_add absoluteSegmentOffset fileSizeNum \<le> length view
                        \<and> headerSize + sizeofCmds \<le> fileOffNum
                     then [with_description (''Data for '' @ segName @ '' ('' @ cpuName @ '')'')
                             (region (prefix @ ''Segment: '' @ segName)
                                (int absoluteSegmentOffset) (int fileSizeNum) SEGMENT
                                (palette, C_SEGMENT))]
                     else [])
              in Inr ([(''SegmentName'', Str segName), (''NSects'', Num (int nSects)),
                       (''VMAddr'', Str (formatHex vmAddr 0)),
                       (''FileOff'', Str (formatHex fileOff 0))],
                      sectionHeaders, segmentRegions, sectionsMetadata))))))))
         else Inr ([], [], [], []))"

text \<open>
  The loop over the load commands. The state is \<^verbatim>\<open>currentCmdOffset\<close>, the segment
  regions pushed to \<^verbatim>\<open>regions\<close>, the children of the load commands region and the
  section metadata.
\<close>

function machoLoadCommands ::
  "byte list \<Rightarrow> nat \<Rightarrow> palette \<Rightarrow> string \<Rightarrow> bool \<Rightarrow> string \<Rightarrow> nat \<Rightarrow> nat \<Rightarrow> nat \<Rightarrow> nat
     \<Rightarrow> nat \<times> Region list \<times> Region list \<times> SectionMetadata list
     \<Rightarrow> js_error + nat \<times> Region list \<times> Region list \<times> SectionMetadata list" where
  "machoLoadCommands view offset palette prefix isLE cpuName headerSize sizeofCmds nCmds i st =
     (case st of (currentCmdOffset, regions, commands, sectionsMetadata) \<Rightarrow>
      if i < nCmds
      then (if length view < currentCmdOffset + 8 then Inr st
            else bindE (getUint32 view currentCmdOffset isLE) (\<lambda>cmd.
                 bindE (getUint32 view (currentCmdOffset + 4) isLE) (\<lambda>cmdSize.
                 let cmdName = lookupOr LC_TYPES (int cmd) (formatHex cmd 0);
                     details = [(''Command'', Str (formatHex cmd 0)), (''Size'', Num (int cmdSize))];
                     children =
                       [fieldD palette ''Command'' currentCmdOffset 4 (Str (formatHex cmd 0)) cmdName,
                        field palette ''CmdSize'' (currentCmdOffset + 4) 4 (Num (int cmdSize))]
                 in
                 bindE (if cmd = 0x1 \<or> cmd = 0x19
                        then machoSegment view offset palette prefix isLE cpuName headerSize
                               sizeofCmds currentCmdOffset cmd
                        else Inr ([], [], [], []))
                   (\<lambda>(segDetails, sectionHeaders, segmentRegions, metas).
                 bindE (if cmd = 0x80000028
                        then bindE (getBigUint64 view (currentCmdOffset + 8) isLE)
                               (\<lambda>entryOffset. Inr [(''EntryOffset'', Str (formatHex entryOffset 0))])
                        else Inr [])
                   (\<lambda>entryDetails.
                 let cmdRegion =
                       with_children (children @ sectionHeaders)
                         (with_details (details @ segDetails @ entryDetails)
                            (region cmdName (int currentCmdOffset) (int cmdSize) LOAD_COMMAND
                               (palette, C_LOAD_COMMAND)))
                 in machoLoadCommands view offset palette prefix isLE cpuName headerSize sizeofCmds
                      nCmds (i + 1)
                      (currentCmdOffset + cmdSize, regions @ segmentRegions,
                       commands @ [cmdRegion], sectionsMetadata @ metas))))))
      else Inr st)"
  by pat_completeness auto
termination
  by (relation "measure (\<lambda>(view, offset, palette, prefix, isLE, cpuName, headerSize,
                             sizeofCmds, nCmds, i, st). nCmds - i)") auto

declare machoLoadCommands.simps [simp del]

text \<open>The parameter \<^verbatim>\<open>sizeLimit\<close> is not used by the source.\<close>

definition parseMachOAtOffset ::
  "byte list \<Rightarrow> nat \<Rightarrow> nat \<Rightarrow> palette \<Rightarrow> string
     \<Rightarrow> js_error + Region list \<times> SectionMetadata list" where
  "parseMachOAtOffset view offset sizeLimit palette prefix =
     (if length view < offset + 4 then Inr ([], [])
      else bindE (getUint32 view offset False) (\<lambda>magic.
        if magic \<noteq> MAGIC_32_LE \<and> magic \<noteq> MAGIC_32_BE \<and> magic \<noteq> MAGIC_64_LE
           \<and> magic \<noteq> MAGIC_64_BE
        then Inr ([], [])
        else
          (let isLE = (magic = MAGIC_32_BE \<or> magic = MAGIC_64_BE);
               is64 = (magic = MAGIC_64_LE \<or> magic = MAGIC_64_BE);
               headerSize = (if is64 then 32 else 28)
           in if length view < offset + headerSize then Inr ([], [])
              else bindE (getInt32 view (offset + 4) isLE) (\<lambda>cpuType.
                   bindE (getInt32 view (offset + 8) isLE) (\<lambda>cpuSubtype.
                   bindE (getUint32 view (offset + 12) isLE) (\<lambda>fileType.
                   bindE (getUint32 view (offset + 16) isLE) (\<lambda>nCmds.
                   bindE (getUint32 view (offset + 20) isLE) (\<lambda>sizeofCmds.
                   bindE (getUint32 view (offset + 24) isLE) (\<lambda>flags.
                   let cpuName = cpuNameOf cpuType;
                       headerRegion =
                         with_details
                           [(''Magic'', Str (formatHex magic 8)), (''CpuType'', Str cpuName),
                            (''FileType'', Str (formatHex fileType 0)),
                            (''NCmds'', Num (int nCmds)), (''SizeOfCmds'', Num (int sizeofCmds)),
                            (''Flags'', Str (formatHex flags 0))]
                           (with_description
                              ((if is64 then ''64-bit'' else ''32-bit'') @ '' Mach-O ('' @ cpuName
                                 @ '', '' @ (if isLE then ''LE'' else ''BE'') @ '')'')
                              (region (prefix @ ''Mach-O Header'') (int offset) (int headerSize)
                                 MACHO_HEADER (palette, C_MACHO_HEADER)))
                   in bindE (machoLoadCommands view offset palette prefix isLE cpuName headerSize
                               sizeofCmds nCmds 0 (offset + headerSize, [headerRegion], [], []))
                        (\<lambda>(currentCmdOffset, regions, commands, sectionsMetadata).
                           Inr (regions @
                                [with_children commands
                                   (region (prefix @ ''Load Commands'') (int (offset + headerSize))
                                      (int sizeofCmds) LOAD_COMMAND (palette, C_LOAD_COMMAND))],
                                sectionsMetadata)))))))))))"

text \<open>
  The body of the loop over the \<^verbatim>\<open>fat_arch\<close> entries for the entry at \<open>offset\<close>: the
  regions pushed (the \<^verbatim>\<open>Arch Def\<close> region and, behind the guard, the slice region
  with the regions of the slice as its children) and the section metadata pushed.
\<close>

definition fatArchEntry ::
  "byte list \<Rightarrow> palette \<Rightarrow> bool \<Rightarrow> nat \<Rightarrow> js_error + Region list \<times> SectionMetadata list" where
  "fatArchEntry view palette isLE offset =
     (let archStructSize = 20
      in bindE (getInt32 view offset isLE) (\<lambda>cputype.
         bindE (getInt32 view (offset + 4) isLE) (\<lambda>cpusubtype.
         bindE (getUint32 view (offset + 8) isLE) (\<lambda>sliceOffset.
         bindE (getUint32 view (offset + 12) isLE) (\<lambda>sliceSize.
         bindE (getUint32 view (offset + 16) isLE) (\<lambda>align.
         let cpuName = cpuNameOf cputype;
             archDef =
               with_details
                 [(''CpuType'', Str cpuName), (''Offset'', Str (formatHex sliceOffset 0)),
                  (''Size'', Str (formatHex sliceSize 0)), (''Align'', Num (int align))]
                 (region (''Arch Def: '' @ cpuName) (int offset) (int archStructSize)
                    FAT_HEADER (palette, C_FAT_HEADER))
         in if 0 < sliceOffset \<and> sliceOffset + sliceSize \<le> length view
            then bindE (parseMachOAtOffset view sliceOffset sliceSize palette
                          (''['' @ cpuName @ ''] ''))
                   (\<lambda>(sliceRegions, sliceMetadata).
                      Inr ([archDef,
                            with_children sliceRegions
                              (with_description (''Full binary for '' @ cpuName)
                                 (region (''Slice: '' @ cpuName) (int sliceOffset)
                                    (int sliceSize) SEGMENT (palette, C_OVERLAY)))],
                           sliceMetadata))
            else Inr ([archDef], [])))))))"

text \<open>
  The loop over the \<^verbatim>\<open>fat_arch\<close> entries. The state is \<^verbatim>\<open>offset\<close>, the regions and the
  section metadata.
\<close>

function fatArchLoop ::
  "byte list \<Rightarrow> palette \<Rightarrow> bool \<Rightarrow> nat \<Rightarrow> nat
     \<Rightarrow> nat \<times> Region list \<times> SectionMetadata list
     \<Rightarrow> js_error + nat \<times> Region list \<times> SectionMetadata list" where
  "fatArchLoop view palette isLE nFatArch i st =
     (case st of (offset, regions, sectionsMetadata) \<Rightarrow>
      if i < nFatArch
      then (if length view < offset + 20 then Inr st
            else bindE (fatArchEntry view palette isLE offset) (\<lambda>(pushed, metadata).
                   fatArchLoop view palette isLE nFatArch (i + 1)
                     (offset + 20, regions @ pushed, sectionsMetadata @ metadata)))
      else Inr st)"
  by pat_completeness auto
termination
  by (relation "measure (\<lambda>(view, palette, isLE, nFatArch, i, st). nFatArch - i)") auto

declare fatArchLoop.simps [simp del]

definition isFatMagic :: "nat \<Rightarrow> bool" where
  "isFatMagic magic \<longleftrightarrow>
     magic = FAT_MAGIC_BE \<or> magic = FAT_CIGAM_LE \<or> magic = FAT_MAGIC_64_BE
     \<or> magic = FAT_CIGAM_64_LE"

definition parseMachO :: "byte list \<Rightarrow> string \<Rightarrow> bool \<Rightarrow> js_error + ParsedFile" where
  "parseMachO buffer fileName isDarkMode =
     (let view = buffer;
          palette = paletteOf isDarkMode
      in if length view < 28
         then Inr \<lparr>pf_name = fileName, pf_size = length buffer, pf_data = view,
                   pf_regions = [], pf_sectionsMetadata = [], pf_isValid = False,
                   pf_error = Some ''File too small'', pf_format = MachO\<rparr>
         else bindE (getUint32 view 0 False) (\<lambda>magic.
           bindE (if isFatMagic magic
                  then (let isLE = (magic = FAT_CIGAM_LE \<or> magic = FAT_CIGAM_64_LE)
                        in bindE (getUint32 view 4 isLE) (\<lambda>nFatArch.
                           bindE (fatArchLoop view palette isLE nFatArch 0
                                    (8,
                                     [with_details [(''Magic'', Str (formatHex magic 8)),
                                                    (''NumArchs'', Num (int nFatArch))]
                                        (region ''Fat Header'' 0 8 FAT_HEADER
                                           (palette, C_FAT_HEADER))],
                                     []))
                             (\<lambda>(offset, regions, sectionsMetadata).
                                Inr (regions, sectionsMetadata))))
                  else parseMachOAtOffset view 0 (length view) palette [])
             (\<lambda>(regions, sectionsMetadata).
                Inr \<lparr>pf_name = fileName, pf_size = length buffer, pf_data = view,
                      pf_regions = sort_key rg_offset regions,
                      pf_sectionsMetadata = sectionsMetadata, pf_isValid = True,
                      pf_error = None, pf_format = MachO\<rparr>)))"

section \<open>Format detection (App.tsx, handleFile)\<close>

text \<open>
  The detection and dispatch of \<^verbatim>\<open>handleFile\<close>, up to the parsed file; what follows in
  the source stores the file in a session, or shows the error message of an invalid file
  or of a caught exception. The ELF parser is a parameter: no statement below depends on
  it.
\<close>

definition isElfMagic :: "byte list \<Rightarrow> js_error + bool" where
  "isElfMagic view =
     bindE (getUint8 view 0) (\<lambda>b0. if b0 \<noteq> 0x7F then Inr False else
     bindE (getUint8 view 1) (\<lambda>b1. if b1 \<noteq> 0x45 then Inr False else
     bindE (getUint8 view 2) (\<lambda>b2. if b2 \<noteq> 0x4C then Inr False else
     bindE (getUint8 view 3) (\<lambda>b3. Inr (b3 = 0x46)))))"

definition detectAndParse ::
  "(nat \<Rightarrow> string) \<Rightarrow> (byte list \<Rightarrow> string \<Rightarrow> bool \<Rightarrow> js_error + ParsedFile)
     \<Rightarrow> byte list \<Rightarrow> string \<Rightarrow> bool \<Rightarrow> js_error + ParsedFile" where
  "detectAndParse toISOString parseELF buffer fileName isDark =
     (let view = buffer
      in if 4 \<le> length view
         then bindE (getUint32 view 0 False) (\<lambda>magic.
              bindE (getUint16 view 0 True) (\<lambda>mz.
              if mz = 0x5A4D then parsePE toISOString buffer fileName isDark
              else bindE (isElfMagic view) (\<lambda>elf.
                if elf then parseELF buffer fileName isDark
                else if magic = 0xFEEDFACE \<or> magic = 0xCEFAEDFE \<or> magic = 0xFEEDFACF
                        \<or> magic = 0xCFFAEDFE \<or> magic = 0xCAFEBABE \<or> magic = 0xBEBAFECA
                        \<or> magic = 0xCAFEBABF \<or> magic = 0xBFBAFECA
                     then parseMachO buffer fileName isDark
                     else parsePE toISOString buffer fileName isDark)))
         else parsePE toISOString buffer fileName isDark)"

section \<open>The region invariant\<close>

text \<open>
  The invariant of the data model: a region has a non-negative size and ends inside the
  file, and the byte range of every child lies within the range of its parent.
\<close>

fun regionInvariant :: "int \<Rightarrow> Region \<Rightarrow> bool" where
  "regionInvariant fileSize (Region name offset sz type color description v details children) =
     (0 \<le> sz \<and> offset + sz \<le> fileSize
      \<and> (case children of
            None \<Rightarrow> True
          | Some kids \<Rightarrow>
              list_all (\<lambda>k. offset \<le> rg_offset k \<and> rg_offset k + rg_size k \<le> offset + sz
                            \<and> regionInvariant fileSize k) kids))"

definition jpeg_short_length :: "byte list" where
  "jpeg_short_length = [0xFF, 0xE0, 0x00, 0x00]"


section \<open>Definitions used in the statements\<close>

definition pngSignature :: "palette \<Rightarrow> Region" where
  "pngSignature palette =
     with_value (Str ''89 50 4E 47 0D 0A 1A 0A'')
       (region ''PNG Signature'' 0 8 IMAGE_HEADER (palette, C_IMAGE_HEADER))"


text \<open>
  The wording of the specification for the detector: the recognised signatures are the
  PE magic \<^verbatim>\<open>MZ\<close>, the ELF magic and the eight Mach-O and Fat magics.
\<close>

definition recognizedMagic :: "byte list \<Rightarrow> bool" where
  "recognizedMagic buffer \<longleftrightarrow>
     uintAt buffer 0 2 True = 0x5A4D
     \<or> map unat (take 4 buffer) = [0x7F, 0x45, 0x4C, 0x46]
     \<or> uintAt buffer 0 4 False \<in> set [0xFEEDFACE, 0xCEFAEDFE, 0xFEEDFACF, 0xCFFAEDFE,
                                          0xCAFEBABE, 0xBEBAFECA, 0xCAFEBABF, 0xBFBAFECA]"








definition sliceRegions :: "ParsedFile \<Rightarrow> Region list" where
  "sliceRegions pf = filter (\<lambda>r. rg_type r = SEGMENT) (pf_regions pf)"

text \<open>
  The wording of the specification for the regions nested in a slice: offsets are file
  offsets, so every region of the slice's subtree starts at or after the slice. A slice
  that begins with a thin Mach-O magic whose header fits in the file has the Mach-O
  header as its first child, at the slice offset, and the load-command area as its last
  child, right after the header; any other slice has no children.
\<close>

fun regionFrom :: "int \<Rightarrow> Region \<Rightarrow> bool" where
  "regionFrom lo (Region name offset sz type color description v details children) =
     (lo \<le> offset
      \<and> (case children of None \<Rightarrow> True | Some kids \<Rightarrow> list_all (regionFrom lo) kids))"



text \<open>
  What the language standard guarantees of \<^verbatim>\<open>exec\<close> on a global regular expression:
  the search starts at \<^verbatim>\<open>lastIndex\<close>, so a match does not begin before it.
\<close>

definition regexp_advances :: "regexp \<Rightarrow> bool" where
  "regexp_advances regex \<longleftrightarrow>
     (\<forall>str lastIndex index m. regex str lastIndex = Some (index, m) \<longrightarrow> lastIndex \<le> index)"


text \<open>
  The wording of the specification for the unicode mode: two bytes per character, low
  byte first.
\<close>

definition utf16le :: "jsstring \<Rightarrow> nat list" where
  "utf16le q = concat (map (\<lambda>c. [unat c mod 256, unat c div 256]) q)"


text \<open>Sample data on which the theorems below are evaluated.\<close>

definition sample_sections :: "SectionMetadata list" where
  "sample_sections =
     [\<lparr>sec_name = ''.text'', virtualAddress = 0x1000, virtualSize = 0x1F0,
        pointerToRawData = 0x400, sizeOfRawData = 0x200\<rparr>,
      \<lparr>sec_name = ''.data'', virtualAddress = 0x2000, virtualSize = 0x200,
        pointerToRawData = 0x600, sizeOfRawData = 0x200\<rparr>]"

text \<open>
  A sample platform: a byte decodes to the code unit of the same value, and a pattern is
  matched literally, which is what a JavaScript engine does for a pattern without
  metacharacters.
\<close>

fun find_literal :: "jsstring \<Rightarrow> jsstring \<Rightarrow> nat \<Rightarrow> nat option" where
  "find_literal p [] k = (if p = [] then Some k else None)"
| "find_literal p (c # s) k =
     (if take (length p) (c # s) = p then Some k else find_literal p s (Suc k))"

definition literal_exec :: "jsstring \<Rightarrow> regexp" where
  "literal_exec p str lastIndex =
     (if lastIndex \<le> length str
      then map_option (\<lambda>k. (k, p)) (find_literal p (drop lastIndex str) lastIndex)
      else None)"

definition sample_platform :: js_platform where
  "sample_platform =
     \<lparr>TextDecoder_latin1 = map ucast, RegExp_g = (\<lambda>q. Inr (literal_exec q))\<rparr>"

definition sample_file :: ParsedFile where
  "sample_file =
     \<lparr>pf_name = ''sample'', pf_size = 10,
       pf_data = [0x4D, 0x5A, 0x41, 0x00, 0x42, 0x00, 0x41, 0x00, 0x42, 0x00],
       pf_regions = [], pf_sectionsMetadata = sample_sections,
       pf_isValid = True, pf_error = None, pf_format = PE\<rparr>"


definition large_file :: ParsedFile where
  "large_file =
     \<lparr>pf_name = ''large'', pf_size = 52428801,
       pf_data = replicate 52428801 0,
       pf_regions = [], pf_sectionsMetadata = [],
       pf_isValid = True, pf_error = None, pf_format = PE\<rparr>"


definition sample_png :: "byte list" where
  "sample_png =
     [0x89, 0x50, 0x4E, 0x47, 0x0D, 0x0A, 0x1A, 0x0A,
      0x00, 0x00, 0x00, 0x0D, 0x49, 0x48, 0x44, 0x52,
      0x00, 0x00, 0x00, 0x01, 0x00, 0x00, 0x00, 0x01, 0x08, 0x02, 0x00, 0x00, 0x00,
      0x90, 0x77, 0x53, 0xDE,
      0x00, 0x00, 0x00, 0x00, 0x49, 0x45, 0x4E, 0x44, 0xAE, 0x42, 0x60, 0x82,
      0x00, 0x00, 0x00, 0x00, 0x49, 0x44, 0x41, 0x54, 0x00, 0x00, 0x00, 0x00]"


definition pe_truncated :: "byte list" where
  "pe_truncated =
     [0x4D, 0x5A, 0, 0, 0, 0, 0, 0, 0, 0, 0, 0, 0, 0, 0, 0,
      0, 0, 0, 0, 0, 0, 0, 0, 0, 0, 0, 0, 0, 0, 0, 0,
      0, 0, 0, 0, 0, 0, 0, 0, 0, 0, 0, 0, 0, 0, 0, 0,
      0, 0, 0, 0, 0, 0, 0, 0, 0, 0, 0, 0, 0x40, 0, 0, 0,
      0x50, 0x45, 0, 0]"


definition fat_overlap :: "byte list" where
  "fat_overlap =
     [0xCA, 0xFE, 0xBA, 0xBE, 0, 0, 0, 2,
      0, 0, 0, 7, 0, 0, 0, 3, 0, 0, 0, 48, 0, 0, 0, 4, 0, 0, 0, 0,
      0, 0, 0, 12, 0, 0, 0, 0, 0, 0, 0, 48, 0, 0, 0, 4, 0, 0, 0, 0,
      0, 0, 0, 0]"



definition fat_nested_outside :: "byte list" where
  "fat_nested_outside =
     [0xCA, 0xFE, 0xBA, 0xBE, 0, 0, 0, 1,
      0, 0, 0, 7, 0, 0, 0, 3, 0, 0, 0, 28, 0, 0, 0, 28, 0, 0, 0, 0,
      0xFE, 0xED, 0xFA, 0xCE, 0, 0, 0, 7, 0, 0, 0, 3, 0, 0, 0, 2,
      0, 0, 0, 0, 0, 0, 0, 100, 0, 0, 0, 0]"

definition fat64_one_slice :: "byte list" where
  "fat64_one_slice =
     [0xCA, 0xFE, 0xBA, 0xBF, 0, 0, 0, 1,
      1, 0, 0, 7, 0, 0, 0, 3, 0, 0, 0, 0, 0, 0, 0, 48, 0, 0, 0, 0, 0, 0, 0, 32,
      0, 0, 0, 0, 0, 0, 0, 0,
      0, 0, 0, 0, 0, 0, 0, 0,
      0xFE, 0xED, 0xFA, 0xCF, 1, 0, 0, 7, 0, 0, 0, 3, 0, 0, 0, 2,
      0, 0, 0, 0, 0, 0, 0, 0, 0, 0, 0, 0, 0, 0, 0, 0]"

definition macho_truncated_main :: "byte list" where
  "macho_truncated_main =
     [0xFE, 0xED, 0xFA, 0xCE, 0, 0, 0, 7, 0, 0, 0, 3, 0, 0, 0, 2,
      0, 0, 0, 1, 0, 0, 0, 24, 0, 0, 0, 0,
      0x80, 0, 0, 0x28, 0, 0, 0, 24]"

definition jpeg_short_sof :: "byte list" where
  "jpeg_short_sof = [0xFF, 0xC0, 0x00, 0x06, 0x08, 0x00, 0x01, 0x00]"


section \<open>Properties of the offset mapper\<close>

lemma js_add_exact: "a + b < 2 ^ 53 \<Longrightarrow> js_add a b = a + b"
  by (simp add: js_add_def js_round_def)

lemma offsetToRva_scan_find:
  "offsetToRva_scan offset sections =
     map_option (\<lambda>sec. js_add (virtualAddress sec) (offset - pointerToRawData sec))
       (find (section_yields offset) sections)"
  by (induction sections) (auto simp: section_yields_def Let_def)

text \<open>
  Claim C6. \<open>offsetToRva\<close> returns \<open>virtualAddress + delta\<close> for the first section, in
  list order, whose raw-file range contains the offset and whose virtual size exceeds the
  in-section delta; when no section yields a result and the offset precedes the first
  section's raw-file start, it returns the offset unchanged; otherwise it returns
  \<^verbatim>\<open>undefined\<close>. The sums are sums of JavaScript numbers (\<open>js_add\<close>), exact below
  \<open>2 ^ 53\<close> by \<open>js_add_exact\<close>.
\<close>

theorem offsetToRva_spec:
  "offsetToRva offset sections =
     (case find (section_yields offset) sections of
        Some sec \<Rightarrow> Some (js_add (virtualAddress sec) (offset - pointerToRawData sec))
      | None \<Rightarrow>
          if sections \<noteq> [] \<and> offset < pointerToRawData (hd sections)
          then Some offset else None)"
proof (cases "find (section_yields offset) sections")
  case None
  then show ?thesis
    by (cases sections) (simp_all add: offsetToRva_def offsetToRva_scan_find)
next
  case (Some sec)
  then show ?thesis by (simp add: offsetToRva_def offsetToRva_scan_find)
qed

theorem offsetToRva_spec_witness:
  "offsetToRva 0x450 sample_sections = Some 0x1050
   \<and> offsetToRva 0x5F8 sample_sections = None
   \<and> offsetToRva 0x10 sample_sections = Some 0x10"
  using offsetToRva_spec [of "0x450" sample_sections]
        offsetToRva_spec [of "0x5F8" sample_sections]
        offsetToRva_spec [of "0x10" sample_sections]
  by (simp add: sample_sections_def section_yields_def js_add_def js_round_def)

section \<open>Properties of the search engine\<close>

lemma and_255_nat: "(n::nat) AND 0xFF = n mod 256"
proof -
  have "n AND mask 8 = take_bit 8 n" by (simp only: take_bit_eq_mask)
  then show ?thesis by (simp add: take_bit_eq_mod mask_eq_exp_minus_1)
qed

lemma unicodeSearchBytes_concat:
  "unicodeSearchBytes q = concat (map (\<lambda>c. [unat c mod 256, unat c div 256]) q)"
proof (induction q)
  case Nil show ?case by simp
next
  case (Cons c q)
  have "unat c < 2 ^ 16" using unsigned_less [of c, where ?'a = nat] by simp
  then have "unat c div 256 < 256" by simp
  then have "(unat c div 256) mod 256 = unat c div 256" by simp
  then show ?case using Cons by (simp add: Let_def and_255_nat drop_bit_eq_div)
qed

lemma length_unicodeSearchBytes: "length (unicodeSearchBytes q) = 2 * length q"
  by (induction q) (simp_all add: Let_def)

lemma matchAt_sound:
  "matchAt buffer sb i j \<Longrightarrow> j \<le> k \<Longrightarrow> k < length sb \<Longrightarrow> bufferAt buffer (i + k) = Some (sb ! k)"
proof (induction buffer sb i j rule: matchAt.induct)
  case (1 buffer sb i j)
  from "1.prems" have jl: "j < length sb" by simp
  from "1.prems"(1) jl have h: "bufferAt buffer (i + j) = Some (sb ! j)" and m: "matchAt buffer sb i (j + 1)"
    by (simp_all add: matchAt.simps [of buffer sb i j] split: if_splits)
  show ?case
  proof (cases "k = j")
    case True then show ?thesis using h by simp
  next
    case False
    then have "j + 1 \<le> k" using "1.prems" by simp
    then show ?thesis using "1.IH" [OF jl _ m] h "1.prems" by simp
  qed
qed

lemma matchAt_bytes:
  assumes "matchAt buffer sb i 0" and "i + length sb \<le> length buffer"
  shows "map unat (take (length sb) (drop i buffer)) = sb"
proof (rule nth_equalityI)
  show "length (map unat (take (length sb) (drop i buffer))) = length sb" using assms(2) by simp
next
  fix k assume "k < length (map unat (take (length sb) (drop i buffer)))"
  then have k: "k < length sb" using assms(2) by simp
  from matchAt_sound [OF assms(1) _ k] have "bufferAt buffer (i + k) = Some (sb ! k)" by simp
  then show "map unat (take (length sb) (drop i buffer)) ! k = sb ! k"
    using k assms(2) by (simp add: bufferAt_def split: if_splits)
qed

lemma scanLoop_members:
  "r \<in> set (scanLoop buffer secs sb mv i results) \<Longrightarrow>
   r \<in> set results \<or>
   (sr_size r = length sb \<and> i \<le> sr_offset r \<and> sr_offset r + length sb \<le> length buffer
      \<and> matchAt buffer sb (sr_offset r) 0)"
proof (induction buffer secs sb mv i results rule: scanLoop.induct)
  case (1 buffer secs sb mv i results)
  show ?case
  proof (cases "i + length sb \<le> length buffer")
    case False
    with "1.prems" show ?thesis by (simp add: scanLoop.simps [of buffer secs sb mv i results])
  next
    case in_range: True
    show ?thesis
    proof (cases "matchAt buffer sb i 0")
      case False
      with in_range "1.prems"
      have "r \<in> set (scanLoop buffer secs sb mv (i + 1) results)"
        by (simp add: scanLoop.simps [of buffer secs sb mv i results])
      from "1.IH"(2) [OF in_range False this] show ?thesis by auto
    next
      case m: True
      let ?new = "\<lparr>sr_offset = i, sr_size = length sb, rva = offsetToRva i secs, matchVal = mv\<rparr>"
      let ?results' = "results @ [?new]"
      show ?thesis
      proof (cases "2000 \<le> length ?results'")
        case True
        with in_range m "1.prems" have "r \<in> set ?results'"
          by (simp add: scanLoop.simps [of buffer secs sb mv i results] Let_def)
        then show ?thesis using in_range m by auto
      next
        case False
        with in_range m "1.prems"
        have "r \<in> set (scanLoop buffer secs sb mv (i + 1) ?results')"
          by (simp add: scanLoop.simps [of buffer secs sb mv i results] Let_def)
        from "1.IH"(1) [OF in_range m refl False this] show ?thesis
          using in_range m by auto
      qed
    qed
  qed
qed

lemma scanLoop_sorted:
  "sorted (map sr_offset results) \<Longrightarrow> \<forall>r \<in> set results. sr_offset r < i \<Longrightarrow>
   sorted (map sr_offset (scanLoop buffer secs sb mv i results))"
proof (induction buffer secs sb mv i results rule: scanLoop.induct)
  case (1 buffer secs sb mv i results)
  show ?case
  proof (cases "i + length sb \<le> length buffer")
    case False
    with "1.prems" show ?thesis by (simp add: scanLoop.simps [of buffer secs sb mv i results])
  next
    case in_range: True
    show ?thesis
    proof (cases "matchAt buffer sb i 0")
      case False
      have "\<forall>r \<in> set results. sr_offset r < i + 1" using "1.prems"(2) by auto
      from "1.IH"(2) [OF in_range False "1.prems"(1) this] show ?thesis
        using in_range False by (simp add: scanLoop.simps [of buffer secs sb mv i results])
    next
      case m: True
      let ?new = "\<lparr>sr_offset = i, sr_size = length sb, rva = offsetToRva i secs, matchVal = mv\<rparr>"
      let ?results' = "results @ [?new]"
      have s: "sorted (map sr_offset ?results')"
        using "1.prems" by (auto simp: sorted_append less_imp_le)
      have b: "\<forall>r \<in> set ?results'. sr_offset r < i + 1" using "1.prems"(2) by auto
      show ?thesis
      proof (cases "2000 \<le> length ?results'")
        case True
        with in_range m s show ?thesis
          by (simp add: scanLoop.simps [of buffer secs sb mv i results] Let_def)
      next
        case False
        from "1.IH"(1) [OF in_range m refl False s b] show ?thesis
          using in_range m False by (simp add: scanLoop.simps [of buffer secs sb mv i results] Let_def)
      qed
    qed
  qed
qed

lemma scanLoop_length:
  "length results < 2000 \<Longrightarrow> length (scanLoop buffer secs sb mv i results) \<le> 2000"
proof (induction buffer secs sb mv i results rule: scanLoop.induct)
  case (1 buffer secs sb mv i results)
  show ?case
  proof (cases "i + length sb \<le> length buffer")
    case False
    with "1.prems" show ?thesis by (simp add: scanLoop.simps [of buffer secs sb mv i results])
  next
    case in_range: True
    show ?thesis
    proof (cases "matchAt buffer sb i 0")
      case False
      from "1.IH"(2) [OF in_range False "1.prems"] show ?thesis
        using in_range False by (simp add: scanLoop.simps [of buffer secs sb mv i results])
    next
      case m: True
      let ?new = "\<lparr>sr_offset = i, sr_size = length sb, rva = offsetToRva i secs, matchVal = mv\<rparr>"
      let ?results' = "results @ [?new]"
      show ?thesis
      proof (cases "2000 \<le> length ?results'")
        case True
        with in_range m "1.prems" show ?thesis
          by (simp add: scanLoop.simps [of buffer secs sb mv i results] Let_def)
      next
        case False
        then have "length ?results' < 2000" by simp
        from "1.IH"(1) [OF in_range m refl False this] show ?thesis
          using in_range m False by (simp add: scanLoop.simps [of buffer secs sb mv i results] Let_def)
      qed
    qed
  qed
qed

lemma regexLoop_sorted:
  "regexp_advances regex \<Longrightarrow> sorted (map sr_offset results) \<Longrightarrow>
   \<forall>r \<in> set results. sr_offset r \<le> lastIndex \<Longrightarrow>
   sorted (map sr_offset (regexLoop regex str secs lastIndex results))"
proof (induction regex str secs lastIndex results rule: regexLoop.induct)
  case (1 regex str secs lastIndex results)
  show ?case
  proof (cases "regex str lastIndex")
    case None
    with "1.prems" show ?thesis by (simp add: regexLoop.simps [of regex str secs lastIndex results])
  next
    case (Some p)
    obtain index m where p: "p = (index, m)" by (cases p)
    let ?new = "\<lparr>sr_offset = index, sr_size = length m, rva = offsetToRva index secs, matchVal = m\<rparr>"
    let ?results' = "results @ [?new]"
    have adv: "lastIndex \<le> index" using "1.prems"(1) Some p by (auto simp: regexp_advances_def)
    have s: "sorted (map sr_offset ?results')"
      using "1.prems"(2,3) adv by (auto simp: sorted_append)
    have b: "\<forall>r \<in> set ?results'. sr_offset r \<le> index + length m"
      using "1.prems"(3) adv by auto
    show ?thesis
    proof (cases "2000 \<le> length ?results'")
      case True
      with Some p s show ?thesis
        by (simp add: regexLoop.simps [of regex str secs lastIndex results] Let_def)
    next
      case False
      from "1.IH" [OF Some p [symmetric] refl False "1.prems"(1) s b] show ?thesis
        using Some p False by (simp add: regexLoop.simps [of regex str secs lastIndex results] Let_def)
    qed
  qed
qed

lemma regexLoop_length:
  "length results < 2000 \<Longrightarrow> length (regexLoop regex str secs lastIndex results) \<le> 2000"
proof (induction regex str secs lastIndex results rule: regexLoop.induct)
  case (1 regex str secs lastIndex results)
  show ?case
  proof (cases "regex str lastIndex")
    case None
    with "1.prems" show ?thesis by (simp add: regexLoop.simps [of regex str secs lastIndex results])
  next
    case (Some p)
    obtain index m where p: "p = (index, m)" by (cases p)
    let ?new = "\<lparr>sr_offset = index, sr_size = length m, rva = offsetToRva index secs, matchVal = m\<rparr>"
    let ?results' = "results @ [?new]"
    show ?thesis
    proof (cases "2000 \<le> length ?results'")
      case True
      with Some p "1.prems" show ?thesis
        by (simp add: regexLoop.simps [of regex str secs lastIndex results] Let_def)
    next
      case False
      then have "length ?results' < 2000" by simp
      from "1.IH" [OF Some p [symmetric] refl False this] show ?thesis
        using Some p False by (simp add: regexLoop.simps [of regex str secs lastIndex results] Let_def)
    qed
  qed
qed


text \<open>
  Claim C10. An empty query returns the empty result list without raising, in every mode
  and for either value of the regex flag: the guard precedes the hex validation and the
  unsupported unicode-regex combination.
\<close>

theorem searchPE_empty_query:
  "searchPE platform file [] mode useRegex = Inr []"
  by (simp add: searchPE_def)

theorem searchPE_empty_query_witness:
  "searchPE sample_platform sample_file [] Unicode True = Inr []
   \<and> searchPE sample_platform sample_file [] Hex False = Inr []"
  using searchPE_empty_query [of sample_platform sample_file Unicode True]
        searchPE_empty_query [of sample_platform sample_file Hex False]
  by simp

lemma find_literal_ge: "find_literal p s k = Some j \<Longrightarrow> k \<le> j"
  by (induction s arbitrary: k) (auto split: if_splits dest: Suc_leD)

lemma literal_exec_advances: "regexp_advances (literal_exec p)"
  unfolding regexp_advances_def literal_exec_def
  by (auto split: if_splits dest: find_literal_ge)

text \<open>
  Claim C5. Whenever \<open>searchPE\<close> returns normally, the result list is ordered
  ascending by offset and holds at most 2000 entries. The regular-expression engine is a
  parameter; it is assumed to search forward from \<^verbatim>\<open>lastIndex\<close>, as the language
  standard prescribes.
\<close>

theorem searchPE_sorted_capped:
  assumes "\<And>q regex. RegExp_g platform q = Inr regex \<Longrightarrow> regexp_advances regex"
    and "searchPE platform file query mode useRegex = Inr results"
  shows "sorted (map sr_offset results) \<and> length results \<le> 2000"
proof (cases "query = []")
  case True
  with assms(2) show ?thesis by (simp add: searchPE_def)
next
  case False
  show ?thesis
  proof (cases mode)
    case Hex
    with False assms(2) obtain sb mv where
      "results = scanLoop (pf_data file) (pf_sectionsMetadata file) sb mv 0 []"
      by (auto simp: searchPE_def Let_def split: if_splits)
    then show ?thesis using scanLoop_sorted [of "[]" 0] scanLoop_length [of "[]"] by simp
  next
    case Ascii
    show ?thesis
    proof (cases useRegex)
      case False
      with \<open>query \<noteq> []\<close> Ascii assms(2) have
        "results = scanLoop (pf_data file) (pf_sectionsMetadata file) (asciiSearchBytes query) query 0 []"
        by (auto simp: searchPE_def Let_def)
      then show ?thesis using scanLoop_sorted [of "[]" 0] scanLoop_length [of "[]"] by simp
    next
      case True
      with \<open>query \<noteq> []\<close> Ascii assms(2) obtain regex where
        r: "RegExp_g platform query = Inr regex" and
        "results = regexLoop regex (TextDecoder_latin1 platform (pf_data file))
                     (pf_sectionsMetadata file) 0 []"
        by (auto simp: searchPE_def Let_def bindE_def split: if_splits sum.splits)
      then show ?thesis
        using regexLoop_sorted [OF assms(1) [OF r], of "[]" 0] regexLoop_length [of "[]"] by simp
    qed
  next
    case Unicode
    with False assms(2) have
      "results = scanLoop (pf_data file) (pf_sectionsMetadata file) (unicodeSearchBytes query) query 0 []"
      by (auto simp: searchPE_def Let_def split: if_splits)
    then show ?thesis using scanLoop_sorted [of "[]" 0] scanLoop_length [of "[]"] by simp
  qed
qed

theorem searchPE_sorted_capped_witness:
  "searchPE sample_platform sample_file [0x41] Ascii True =
     Inr [\<lparr>sr_offset = 2, sr_size = 1, rva = Some 2, matchVal = [0x41]\<rparr>,
          \<lparr>sr_offset = 6, sr_size = 1, rva = Some 6, matchVal = [0x41]\<rparr>]
   \<and> sorted (map sr_offset
         [\<lparr>sr_offset = 2, sr_size = 1, rva = Some 2, matchVal = [0x41]\<rparr>,
          \<lparr>sr_offset = 6, sr_size = 1, rva = Some 6, matchVal = [0x41]\<rparr>])
   \<and> length
         [\<lparr>sr_offset = 2, sr_size = 1, rva = Some 2, matchVal = [0x41]\<rparr>,
          \<lparr>sr_offset = 6, sr_size = 1, rva = Some 6, matchVal = [0x41 :: 16 word]\<rparr>] \<le> 2000"
proof -
  have adv: "\<And>q regex. RegExp_g sample_platform q = Inr regex \<Longrightarrow> regexp_advances regex"
    by (auto simp: sample_platform_def literal_exec_advances)
  have run: "searchPE sample_platform sample_file [0x41] Ascii True =
     Inr [\<lparr>sr_offset = 2, sr_size = 1, rva = Some 2, matchVal = [0x41]\<rparr>,
          \<lparr>sr_offset = 6, sr_size = 1, rva = Some 6, matchVal = [0x41]\<rparr>]"
    by (simp add: searchPE_def sample_platform_def sample_file_def bindE_def
          regexLoop.simps literal_exec_def offsetToRva_def sample_sections_def
          js_add_def js_round_def)
  from searchPE_sorted_capped [OF adv run] run show ?thesis by simp
qed

text \<open>
  Claim C4, as stated, fails: with a buffer above 50 MB and the regex flag set, an empty
  query returns the empty list, and in hex mode the flag is ignored, so that a valid hex
  query returns normally.
\<close>

theorem searchPE_regex_large_counterexample:
  "searchPE sample_platform large_file [] Ascii True = Inr []
   \<and> \<not> isl (searchPE sample_platform large_file [0x30, 0x30] Hex True)"
  by (simp add: searchPE_def large_file_def stripSpaces_def js_isSpace_def
        isHexString_def isHexDigit_def Let_def)

text \<open>
  Claim C4, amended. For every buffer larger than 50 MB and every non-empty query, a
  search with the regex flag set raises: in ascii mode the error
  \<^verbatim>\<open>File too large for Regex search (max 50MB)\<close>, whatever the query holds and before
  the pattern is compiled; in unicode mode the error of the unsupported combination.
\<close>

theorem searchPE_regex_large_buffer:
  assumes "50 * 1024 * 1024 < length (pf_data file)" and "query \<noteq> []"
  shows "searchPE platform file query Ascii True =
           Inl (Error ''File too large for Regex search (max 50MB)'')
         \<and> searchPE platform file query Unicode True =
           Inl (Error ''Regex not supported for Unicode (Raw) search in this version.'')"
  using assms by (simp add: searchPE_def)

theorem searchPE_regex_large_buffer_witness:
  "50 * 1024 * 1024 < length (pf_data large_file) \<and> [0x41 :: 16 word] \<noteq> []
   \<and> searchPE sample_platform large_file [0x41] Ascii True =
       Inl (Error ''File too large for Regex search (max 50MB)'')
   \<and> searchPE sample_platform large_file [0x41] Unicode True =
       Inl (Error ''Regex not supported for Unicode (Raw) search in this version.'')"
proof -
  have big: "50 * 1024 * 1024 < length (pf_data large_file)" by (simp add: large_file_def)
  have ne: "[0x41 :: 16 word] \<noteq> []" by simp
  from searchPE_regex_large_buffer [OF big ne, of sample_platform] big ne
  show ?thesis by simp
qed

text \<open>
  Claim C7, as stated, fails for the empty query: in unicode mode with the regex flag set
  it returns the empty list and raises nothing.
\<close>

theorem searchPE_unicode_regex_counterexample:
  "searchPE sample_platform sample_file [] Unicode True = Inr []"
  by (simp add: searchPE_def)

text \<open>
  Claim C7, amended. In unicode mode, a non-empty query with the regex flag set raises;
  without the flag, every result has a size of twice the number of UTF-16 code units of
  the query, and the buffer bytes at \<open>[offset, offset + size)\<close> are the UTF-16LE
  encoding of the query.
\<close>

theorem searchPE_unicode:
  "(query \<noteq> [] \<longrightarrow>
      searchPE platform file query Unicode True =
        Inl (Error ''Regex not supported for Unicode (Raw) search in this version.''))
   \<and> (\<forall>results r. searchPE platform file query Unicode False = Inr results \<longrightarrow>
          r \<in> set results \<longrightarrow>
          sr_size r = 2 * length query
          \<and> map unat (take (sr_size r) (drop (sr_offset r) (pf_data file))) = utf16le query)"
proof (intro conjI allI impI)
  assume "query \<noteq> []"
  then show "searchPE platform file query Unicode True =
        Inl (Error ''Regex not supported for Unicode (Raw) search in this version.'')"
    by (simp add: searchPE_def)
next
  fix results r
  assume run: "searchPE platform file query Unicode False = Inr results"
    and r: "r \<in> set results"
  from run have "results = [] \<or>
      results = scanLoop (pf_data file) (pf_sectionsMetadata file) (unicodeSearchBytes query) query 0 []"
    by (auto simp: searchPE_def Let_def split: if_splits)
  with r have "r \<in> set (scanLoop (pf_data file) (pf_sectionsMetadata file)
                    (unicodeSearchBytes query) query 0 [])" by auto
  from scanLoop_members [OF this]
  have sz: "sr_size r = length (unicodeSearchBytes query)"
    and rng: "sr_offset r + length (unicodeSearchBytes query) \<le> length (pf_data file)"
    and m: "matchAt (pf_data file) (unicodeSearchBytes query) (sr_offset r) 0"
    by simp_all
  from sz show "sr_size r = 2 * length query" by (simp add: length_unicodeSearchBytes)
  from matchAt_bytes [OF m rng] sz
  show "map unat (take (sr_size r) (drop (sr_offset r) (pf_data file))) = utf16le query"
    by (simp add: utf16le_def unicodeSearchBytes_concat)
qed

theorem searchPE_unicode_witness:
  "searchPE sample_platform sample_file [0x41, 0x42] Unicode True =
     Inl (Error ''Regex not supported for Unicode (Raw) search in this version.'')
   \<and> searchPE sample_platform sample_file [0x41, 0x42] Unicode False =
       Inr [\<lparr>sr_offset = 2, sr_size = 4, rva = Some 2, matchVal = [0x41, 0x42]\<rparr>,
            \<lparr>sr_offset = 6, sr_size = 4, rva = Some 6, matchVal = [0x41, 0x42]\<rparr>]
   \<and> map unat (take 4 (drop 6 (pf_data sample_file))) = utf16le [0x41, 0x42]"
proof -
  have run: "searchPE sample_platform sample_file [0x41, 0x42] Unicode False =
       Inr [\<lparr>sr_offset = 2, sr_size = 4, rva = Some 2, matchVal = [0x41, 0x42]\<rparr>,
            \<lparr>sr_offset = 6, sr_size = 4, rva = Some 6, matchVal = [0x41, 0x42]\<rparr>]"
    by (simp add: searchPE_def sample_file_def scanLoop.simps matchAt.simps bufferAt_def
          offsetToRva_def sample_sections_def js_add_def js_round_def and_255_nat
          drop_bit_eq_div)
  from searchPE_unicode [of "[0x41, 0x42]" sample_platform sample_file] run
  show ?thesis by simp
qed

section \<open>Properties of the image parsers\<close>

lemma getUint_in_range:
  "off + n \<le> length view \<Longrightarrow> getUint n view off le = Inr (uintAt view off n le)"
  by (simp add: getUint_def)

lemma readChars_ok: "off + n \<le> length view \<Longrightarrow> \<exists>s. readChars view off n = Inr s"
proof (induction n arbitrary: off)
  case 0
  show ?case by simp
next
  case (Suc n)
  then have "off + 1 + n \<le> length view" by simp
  from Suc.IH [OF this] obtain s where "readChars view (off + 1) n = Inr s" ..
  moreover have "getUint8 view off = Inr (uintAt view off 1 False)"
    using Suc.prems by (simp add: getUint8_def getUint_def)
  ultimately show ?case by simp
qed

lemma readString_clamped_ok: "\<exists>s. readString_clamped view off n = Inr s"
proof (cases "off \<le> length view")
  case True
  then have "off + min n (length view - off) \<le> length view" by simp
  from readChars_ok [OF this] show ?thesis by (simp add: readString_clamped_def)
next
  case False
  then have "min n (length view - off) = 0" by simp
  then show ?thesis by (simp add: readString_clamped_def)
qed

lemma pngChunkRegion_ok:
  assumes "offset + 12 + len \<le> length view"
  shows "\<exists>r. pngChunkRegion view palette offset len type desc = Inr r
             \<and> rg_name r = ''Chunk: '' @ type \<and> rg_offset r = int offset
             \<and> rg_size r = int (12 + len) \<and> rg_type r = PNG_CHUNK"
proof -
  have crc: "getUint32 view (offset + 8 + len) False = Inr (uintAt view (offset + 8 + len) 4 False)"
    using assms by (simp add: getUint32_def getUint_def)
  show ?thesis
  proof (cases "type = ''IHDR'' \<and> 13 \<le> len")
    case False
    then show ?thesis
      by (auto simp: pngChunkRegion_def crc Let_def with_children_def with_details_def
            with_description_def region_def)
  next
    case True
    then have "offset + 21 \<le> length view" using assms by simp
    then have
      "getUint32 view (offset + 8) False = Inr (uintAt view (offset + 8) 4 False)"
      "getUint32 view (offset + 12) False = Inr (uintAt view (offset + 12) 4 False)"
      "getUint8 view (offset + 16) = Inr (uintAt view (offset + 16) 1 False)"
      "getUint8 view (offset + 17) = Inr (uintAt view (offset + 17) 1 False)"
      "getUint8 view (offset + 18) = Inr (uintAt view (offset + 18) 1 False)"
      "getUint8 view (offset + 19) = Inr (uintAt view (offset + 19) 1 False)"
      "getUint8 view (offset + 20) = Inr (uintAt view (offset + 20) 1 False)"
      by (simp_all add: getUint32_def getUint8_def getUint_def)
    with True show ?thesis
      by (auto simp: pngChunkRegion_def crc Let_def with_children_def with_details_def
            with_description_def region_def)
  qed
qed

lemma pngLoop_inv:
  "\<exists>cs. pngLoop view palette offset regions = Inr (regions @ cs)
     \<and> (\<forall>c \<in> set cs. rg_type c = PNG_CHUNK \<and> 0 \<le> rg_offset c
            \<and> rg_size c = int (uintAt view (nat (rg_offset c)) 4 False) + 12
            \<and> rg_offset c + rg_size c \<le> int (length view))
     \<and> (\<forall>i < length cs. rg_name (cs ! i) = ''Chunk: IEND'' \<longrightarrow> Suc i = length cs)"
  (is "\<exists>cs. ?R view palette offset regions cs")
proof (induction view palette offset regions rule: pngLoop.induct)
  case (1 view palette offset regions)
  let ?stop = "\<not> offset < length view \<or> length view < offset + 8"
  show ?case
  proof (cases ?stop)
    case True
    then have "pngLoop view palette offset regions = Inr regions"
      by (auto simp: pngLoop.simps [of view palette offset regions])
    then show ?thesis by (intro exI [of _ "[]"]) simp
  next
    case False
    then have lt: "offset < length view" and ge: "\<not> length view < offset + 8" by auto
    define len where "len = uintAt view offset 4 False"
    have rlen: "getUint32 view offset False = Inr len"
      using ge by (simp add: getUint32_def getUint_def len_def)
    obtain type where rtype: "readString_clamped view (offset + 4) 4 = Inr type"
      using readString_clamped_ok by blast
    show ?thesis
    proof (cases "length view < offset + (12 + len)")
      case True
      then have "pngLoop view palette offset regions = Inr regions"
        using lt ge rlen rtype by (simp add: pngLoop.simps [of view palette offset regions])
      then show ?thesis by (intro exI [of _ "[]"]) simp
    next
      case fits: False
      define desc where "desc = (case map_of PNG_CHUNK_TYPES type of
                                   Some d \<Rightarrow> d | None \<Rightarrow> ''Unknown Chunk'')"
      from fits have "offset + 12 + len \<le> length view" by simp
      from pngChunkRegion_ok [OF this, of palette type desc] obtain r where
        rr: "pngChunkRegion view palette offset len type desc = Inr r" and
        rname: "rg_name r = ''Chunk: '' @ type" and roff: "rg_offset r = int offset" and
        rsize: "rg_size r = int (12 + len)" and rty: "rg_type r = PNG_CHUNK"
        by blast
      have rok: "rg_type r = PNG_CHUNK \<and> 0 \<le> rg_offset r
            \<and> rg_size r = int (uintAt view (nat (rg_offset r)) 4 False) + 12
            \<and> rg_offset r + rg_size r \<le> int (length view)"
        using fits roff rsize rty by (simp add: len_def)
      show ?thesis
      proof (cases "type = ''IEND''")
        case True
        then have "pngLoop view palette offset regions = Inr (regions @ [r])"
          using lt ge rlen rtype fits rr
          by (simp add: pngLoop.simps [of view palette offset regions] desc_def)
        then show ?thesis using rok by (intro exI [of _ "[r]"]) simp
      next
        case False
        from "1.IH" [OF lt ge rlen rtype refl fits desc_def rr False]
        obtain cs where
          run: "pngLoop view palette (offset + (12 + len)) (regions @ [r]) = Inr ((regions @ [r]) @ cs)"
          and ok: "\<forall>c \<in> set cs. rg_type c = PNG_CHUNK \<and> 0 \<le> rg_offset c
            \<and> rg_size c = int (uintAt view (nat (rg_offset c)) 4 False) + 12
            \<and> rg_offset c + rg_size c \<le> int (length view)"
          and last: "\<forall>i < length cs. rg_name (cs ! i) = ''Chunk: IEND'' \<longrightarrow> Suc i = length cs"
          by (auto simp: desc_def)
        have "pngLoop view palette offset regions = Inr (regions @ (r # cs))"
          using lt ge rlen rtype fits rr False run
          by (simp add: pngLoop.simps [of view palette offset regions] desc_def)
        moreover have "\<forall>i < length (r # cs). rg_name ((r # cs) ! i) = ''Chunk: IEND'' \<longrightarrow>
                          Suc i = length (r # cs)"
        proof (intro allI impI)
          fix i assume i: "i < length (r # cs)" and n: "rg_name ((r # cs) ! i) = ''Chunk: IEND''"
          show "Suc i = length (r # cs)"
          proof (cases i)
            case 0
            with n rname False show ?thesis by simp
          next
            case (Suc j)
            with i n last show ?thesis by simp
          qed
        qed
        ultimately show ?thesis using rok ok by (intro exI [of _ "r # cs"]) auto
      qed
    qed
  qed
qed


text \<open>
  Claim C9. For every input buffer \<open>parsePNG\<close> terminates and returns a parsed file
  (the walk is a total function and no read leaves the buffer). The regions after the
  signature are the chunk regions: the size of each equals the big-endian 32-bit data
  length stored at its offset plus the 12 bytes of length, type and CRC, each lies inside
  the buffer, and a chunk of type \<^verbatim>\<open>IEND\<close> can only be the last one.
\<close>

theorem parsePNG_chunks:
  "\<exists>pf chunks.
      parsePNG buffer fileName isDarkMode = Inr pf
    \<and> pf_regions pf = pngSignature (paletteOf isDarkMode) # chunks
    \<and> (\<forall>c \<in> set chunks. rg_type c = PNG_CHUNK \<and> 0 \<le> rg_offset c
           \<and> rg_size c = int (uintAt buffer (nat (rg_offset c)) 4 False) + 12
           \<and> rg_offset c + rg_size c \<le> int (length buffer))
    \<and> (\<forall>i < length chunks. rg_name (chunks ! i) = ''Chunk: IEND'' \<longrightarrow> Suc i = length chunks)"
proof -
  from pngLoop_inv [of buffer "paletteOf isDarkMode" 8 "[pngSignature (paletteOf isDarkMode)]"]
  obtain cs where
    "pngLoop buffer (paletteOf isDarkMode) 8 [pngSignature (paletteOf isDarkMode)] =
       Inr ([pngSignature (paletteOf isDarkMode)] @ cs)"
    and "\<forall>c \<in> set cs. rg_type c = PNG_CHUNK \<and> 0 \<le> rg_offset c
            \<and> rg_size c = int (uintAt buffer (nat (rg_offset c)) 4 False) + 12
            \<and> rg_offset c + rg_size c \<le> int (length buffer)"
    and "\<forall>i < length cs. rg_name (cs ! i) = ''Chunk: IEND'' \<longrightarrow> Suc i = length cs"
    by blast
  then show ?thesis
    by (intro exI [of _ "\<lparr>pf_name = fileName, pf_size = length buffer, pf_data = buffer,
               pf_regions = pngSignature (paletteOf isDarkMode) # cs,
               pf_sectionsMetadata = [], pf_isValid = True,
               pf_error = None, pf_format = PNG\<rparr>"] exI [of _ cs])
       (auto simp: parsePNG_def pngSignature_def Let_def)
qed


lemma sample_png_names:
  "map_sum id (\<lambda>pf. map (\<lambda>r. (rg_name r, rg_offset r, rg_size r)) (pf_regions pf))
     (parsePNG sample_png ''a.png'' True) =
   Inr [(''PNG Signature'', 0, 8), (''Chunk: IHDR'', 8, 25), (''Chunk: IEND'', 33, 12)]"
  by (simp add: parsePNG_def sample_png_def pngLoop.simps pngChunkRegion_def Let_def
        getUint32_def getUint8_def getUint_def uintAt_def le_nat_def readString_clamped_def
        PNG_CHUNK_TYPES_def with_children_def with_details_def with_description_def
        with_value_def region_def field_def paletteOf_def char_of_def bit_0)


theorem parsePNG_chunks_witness:
  "\<exists>pf chunks.
      parsePNG sample_png ''a.png'' True = Inr pf
    \<and> pf_regions pf = pngSignature DARK_COLORS # chunks
    \<and> map (\<lambda>r. (rg_name r, rg_offset r, rg_size r)) chunks =
          [(''Chunk: IHDR'', 8, 25), (''Chunk: IEND'', 33, 12)]"
proof -
  from parsePNG_chunks [of sample_png "''a.png''" True] obtain pf chunks where
    run: "parsePNG sample_png ''a.png'' True = Inr pf" and
    regs: "pf_regions pf = pngSignature (paletteOf True) # chunks"
    by blast
  from sample_png_names run regs
  have "map (\<lambda>r. (rg_name r, rg_offset r, rg_size r)) chunks =
          [(''Chunk: IHDR'', 8, 25), (''Chunk: IEND'', 33, 12)]"
    by simp
  with run regs show ?thesis by (auto simp: paletteOf_def)
qed

lemma hexE0: "toHexUpper 0xE0 = ''E0''"
  by (simp add: toHexUpper.simps [of 224] toHexUpper.simps [of 14] hexChar_def)

text \<open>
  Claim C1 (every region of a valid parse has a non-negative size, ends inside the file
  and contains its children) does not hold of the code: on the four bytes
  \<^verbatim>\<open>FF E0 00 00\<close> \<open>parseJPEG\<close> returns a valid file whose \<^verbatim>\<open>APP0\<close> region
  \<open>[0, 2)\<close> has a child \<^verbatim>\<open>Length\<close> at \<open>[2, 4)\<close> and a child \<^verbatim>\<open>Data\<close> of size \<open>-2\<close>.
\<close>

theorem parseJPEG_region_invariant_broken:
  "parseJPEG jpeg_short_length ''a.jpg'' True =
     Inr \<lparr>pf_name = ''a.jpg'', pf_size = 4, pf_data = jpeg_short_length,
           pf_regions =
             [Region ''APP0'' 0 2 JPEG_SEGMENT (DARK_COLORS, C_JPEG_SEGMENT)
                (Some ''APP0 (JFIF)'') None (Some [(''Length'', Num 0)])
                (Some [Region ''Marker'' 0 2 FIELD (DARK_COLORS, C_FIELD) None
                         (Some (Str ''FF E0'')) None None,
                       Region ''Length'' 2 2 FIELD (DARK_COLORS, C_FIELD) None
                         (Some (Num 0)) None None,
                       Region ''Data'' 4 (- 2) IMAGE_DATA (DARK_COLORS, C_IMAGE_DATA) None
                         None None None])],
           pf_sectionsMetadata = [], pf_isValid = True, pf_error = None, pf_format = JPEG\<rparr>
   \<and> \<not> list_all (regionInvariant 4)
         [Region ''APP0'' 0 2 JPEG_SEGMENT (DARK_COLORS, C_JPEG_SEGMENT)
                (Some ''APP0 (JFIF)'') None (Some [(''Length'', Num 0)])
                (Some [Region ''Marker'' 0 2 FIELD (DARK_COLORS, C_FIELD) None
                         (Some (Str ''FF E0'')) None None,
                       Region ''Length'' 2 2 FIELD (DARK_COLORS, C_FIELD) None
                         (Some (Num 0)) None None,
                       Region ''Data'' 4 (- 2) IMAGE_DATA (DARK_COLORS, C_IMAGE_DATA) None
                         None None None])]"
  by (simp add: parseJPEG_def jpeg_short_length_def jpegLoop.simps jpegSegmentRegion_def
        jpegMarkerName_def JPEG_MARKERS_def firstWord_def hexE0 Let_def
        getUint16_def getUint8_def getUint_def uintAt_def le_nat_def
        with_children_def with_details_def with_description_def
        with_value_def region_def field_def paletteOf_def)

section \<open>Properties of the PE parser and of the detector\<close>

text \<open>
  Claim C2 (every parse function returns a parsed file and never throws) does not hold of
  the code: on a 68-byte buffer that ends right after the PE signature, \<open>parsePE\<close>
  reads the file header outside the view and the \<^verbatim>\<open>RangeError\<close> leaves the function.
\<close>

theorem parsePE_throws:
  "parsePE toISOString pe_truncated ''t.exe'' True = Inl RangeError"
  by (simp add: parsePE_def peAfterSignature_def pe_truncated_def getUint16_def getUint32_def
        getUint_def uintAt_def le_nat_def Let_def cong: bindE_weak_cong)

lemma isElfMagic_take:
  assumes "4 \<le> length view"
  shows "isElfMagic view = Inr (map unat (take 4 view) = [0x7F, 0x45, 0x4C, 0x46])"
proof -
  from assms obtain a b c d rest where v: "view = a # b # c # d # rest"
    by (cases view; cases "tl view"; cases "tl (tl view)"; cases "tl (tl (tl view))") auto
  show ?thesis
    by (simp add: v isElfMagic_def getUint8_def getUint_def uintAt_def le_nat_def)
qed

lemma parsePE_not_MZ:
  assumes "uintAt buffer 0 2 True \<noteq> 0x5A4D \<or> length buffer < 64"
  shows "\<exists>msg. msg \<noteq> [] \<and>
           parsePE toISOString buffer fileName isDark = Inr (peInvalid buffer fileName [] msg)"
proof (cases "length buffer < 64")
  case True
  then show ?thesis by (intro exI [of _ "''File too small''"]) (simp add: parsePE_def)
next
  case False
  with assms have "uintAt buffer 0 2 True \<noteq> 0x5A4D" by simp
  with False show ?thesis
    by (intro exI [of _ "''Invalid DOS signature (not MZ)''"])
       (simp add: parsePE_def getUint16_def getUint_def cong: bindE_weak_cong)
qed

text \<open>
  Claim C8. A buffer shorter than four bytes, or one whose first four bytes match none of
  the recognised signatures, is dispatched to the PE parser, which returns a parsed file
  that is not valid and carries a non-empty error message; no exception is raised.
\<close>

theorem detect_fallback_to_PE:
  assumes "length buffer < 4 \<or> \<not> recognizedMagic buffer"
  shows "\<exists>pf msg.
           detectAndParse toISOString parseELF buffer fileName isDark = Inr pf
         \<and> parsePE toISOString buffer fileName isDark = Inr pf
         \<and> \<not> pf_isValid pf \<and> pf_error pf = Some msg \<and> msg \<noteq> []
         \<and> pf_format pf = PE"
proof -
  have notMZ: "uintAt buffer 0 2 True \<noteq> 0x5A4D \<or> length buffer < 64"
    using assms by (auto simp: recognizedMagic_def)
  from parsePE_not_MZ [OF this] obtain msg where
    msg: "msg \<noteq> []" and
    pe: "parsePE toISOString buffer fileName isDark = Inr (peInvalid buffer fileName [] msg)"
    by blast
  have "detectAndParse toISOString parseELF buffer fileName isDark =
          parsePE toISOString buffer fileName isDark"
  proof (cases "length buffer < 4")
    case True
    then show ?thesis by (simp add: detectAndParse_def)
  next
    case False
    with assms have nr: "\<not> recognizedMagic buffer" and len: "4 \<le> length buffer" by auto
    from nr have "uintAt buffer 0 2 True \<noteq> 0x5A4D"
      and "map unat (take 4 buffer) \<noteq> [0x7F, 0x45, 0x4C, 0x46]"
      and "uintAt buffer 0 4 False \<notin> set [0xFEEDFACE, 0xCEFAEDFE, 0xFEEDFACF, 0xCFFAEDFE,
                                           0xCAFEBABE, 0xBEBAFECA, 0xCAFEBABF, 0xBFBAFECA]"
      by (simp_all add: recognizedMagic_def)
    with len show ?thesis
      by (simp add: detectAndParse_def getUint32_def getUint16_def getUint_def
            isElfMagic_take)
  qed
  with pe msg show ?thesis
    by (intro exI [of _ "peInvalid buffer fileName [] msg"] exI [of _ msg])
       (simp add: peInvalid_def)
qed

theorem detect_fallback_to_PE_witness:
  "(length sample_png < 4 \<or> \<not> recognizedMagic sample_png)
   \<and> detectAndParse (\<lambda>ms. []) (\<lambda>b n d. Inl RangeError) sample_png ''a.png'' True =
       Inr (peInvalid sample_png ''a.png'' [] ''File too small'')
   \<and> \<not> pf_isValid (peInvalid sample_png ''a.png'' [] ''File too small'')"
proof -
  have h: "length sample_png < 4 \<or> \<not> recognizedMagic sample_png"
    by (simp add: recognizedMagic_def sample_png_def uintAt_def le_nat_def)
  have pe: "parsePE (\<lambda>ms. []) sample_png ''a.png'' True =
              Inr (peInvalid sample_png ''a.png'' [] ''File too small'')"
    by (simp add: parsePE_def sample_png_def)
  from detect_fallback_to_PE [OF h, of "\<lambda>ms. []" "\<lambda>b n d. Inl RangeError" "''a.png''" True]
    h pe
  show ?thesis by (auto simp: peInvalid_def)
qed

section \<open>Properties of the Mach-O parser\<close>

lemma rg_region [simp]:
  "rg_name (region n off sz t c) = n" "rg_offset (region n off sz t c) = off"
  "rg_size (region n off sz t c) = sz" "rg_type (region n off sz t c) = t"
  by (simp_all add: region_def)

lemma rg_with_children [simp]:
  "rg_name (with_children cs r) = rg_name r" "rg_offset (with_children cs r) = rg_offset r"
  "rg_size (with_children cs r) = rg_size r" "rg_type (with_children cs r) = rg_type r"
  by (simp_all add: with_children_def)

lemma rg_with_details [simp]:
  "rg_name (with_details ds r) = rg_name r" "rg_offset (with_details ds r) = rg_offset r"
  "rg_size (with_details ds r) = rg_size r" "rg_type (with_details ds r) = rg_type r"
  by (simp_all add: with_details_def)

lemma rg_with_description [simp]:
  "rg_name (with_description d r) = rg_name r" "rg_offset (with_description d r) = rg_offset r"
  "rg_size (with_description d r) = rg_size r" "rg_type (with_description d r) = rg_type r"
  by (simp_all add: with_description_def)



lemma regionFrom_region [simp]: "regionFrom lo (region n off sz t c) \<longleftrightarrow> lo \<le> off"
  by (simp add: region_def)

lemma regionFrom_with_details [simp]: "regionFrom lo (with_details ds r) = regionFrom lo r"
  by (cases r) (simp add: with_details_def)

lemma regionFrom_with_description [simp]:
  "regionFrom lo (with_description d r) = regionFrom lo r"
  by (cases r) (simp add: with_description_def)

lemma regionFrom_with_value [simp]: "regionFrom lo (with_value v r) = regionFrom lo r"
  by (cases r) (simp add: with_value_def)

lemma regionFrom_with_children [simp]:
  "regionFrom lo (with_children cs r) \<longleftrightarrow> lo \<le> rg_offset r \<and> list_all (regionFrom lo) cs"
  by (cases r) (simp add: with_children_def)

lemma regionFrom_field [simp]: "regionFrom lo (field p n off sz v) \<longleftrightarrow> lo \<le> int off"
  by (simp add: field_def)

lemma regionFrom_fieldD [simp]: "regionFrom lo (fieldD p n off sz v d) \<longleftrightarrow> lo \<le> int off"
  by (simp add: fieldD_def)







text \<open>
  The regions of a Mach-O parsed at an offset all start at or after that offset, at every
  depth: header fields, load commands, segments and their sections.
\<close>

lemma rg_children_simps [simp]:
  "rg_children (region n off sz t c) = None"
  "rg_children (with_children cs r) = Some cs"
  "rg_children (with_details ds r) = rg_children r"
  "rg_children (with_description d r) = rg_children r"
  by (simp_all add: region_def with_children_def with_details_def with_description_def)












lemma fat_overlap_regions:
  "map_sum id (\<lambda>pf. map (\<lambda>r. (rg_name r, rg_offset r, rg_size r)) (pf_regions pf))
     (parseMachO fat_overlap ''fat'' True) =
   Inr [(''Fat Header'', 0, 8), (''Arch Def: x86'', 8, 20), (''Arch Def: ARM'', 28, 20),
        (''Slice: x86'', 48, 4), (''Slice: ARM'', 48, 4)]"
  by (simp add: parseMachO_def fat_overlap_def fatArchLoop.simps fatArchEntry_def
        parseMachOAtOffset_def isFatMagic_def FAT_MAGIC_BE_def FAT_CIGAM_LE_def
        FAT_MAGIC_64_BE_def FAT_CIGAM_64_LE_def MAGIC_32_LE_def MAGIC_32_BE_def
        MAGIC_64_LE_def MAGIC_64_BE_def cpuNameOf_def CPU_TYPES_def lookupOr_def
        getUint32_def getInt32_def getUint_def uintAt_def le_nat_def Let_def paletteOf_def
        cong: bindE_weak_cong)

lemmas macho_eval_defs =
  parseMachO_def fatArchLoop.simps fatArchEntry_def parseMachOAtOffset_def
  machoLoadCommands.simps isFatMagic_def FAT_MAGIC_BE_def FAT_CIGAM_LE_def
  FAT_MAGIC_64_BE_def FAT_CIGAM_64_LE_def MAGIC_32_LE_def MAGIC_32_BE_def
  MAGIC_64_LE_def MAGIC_64_BE_def cpuNameOf_def CPU_TYPES_def lookupOr_def
  getUint32_def getInt32_def getBigUint64_def getUint_def uintAt_def le_nat_def Let_def
  paletteOf_def


text \<open>
  The regions nested in a slice are not confined to the slice: the load commands region
  takes its size from the header of the slice, and the parameter \<^verbatim>\<open>sizeLimit\<close> is not
  consulted.
\<close>

lemma parseMachO_nested_outside_slice:
  "map_sum id
     (\<lambda>pf. map (\<lambda>r. (rg_name r, rg_offset r, rg_size r,
                     map_option (map (\<lambda>k. (rg_name k, rg_offset k, rg_size k))) (rg_children r)))
             (sliceRegions pf))
     (parseMachO fat_nested_outside ''fat'' True) =
   Inr [(''Slice: x86'', 28, 28,
         Some [(''[x86] Mach-O Header'', 28, 28), (''[x86] Load Commands'', 56, 100)])]"
  by (simp add: macho_eval_defs fat_nested_outside_def sliceRegions_def
        with_children_def with_description_def with_details_def region_def
        cong: bindE_weak_cong)


text \<open>
  Under the Fat-64 magics the source reads the entries with the same 20-byte layout: on
  a file with one 32-byte entry that declares the slice \<open>[48, 80)\<close> it takes the high
  word of the 64-bit offset for the slice offset and emits no slice region.
\<close>

lemma parseMachO_fat64_no_slice:
  "map_sum id (\<lambda>pf. (pf_isValid pf, map (\<lambda>r. (rg_name r, rg_offset r, rg_size r)) (pf_regions pf)))
     (parseMachO fat64_one_slice ''fat64'' True) =
   Inr (True, [(''Fat Header'', 0, 8), (''Arch Def: x86_64'', 8, 20)])"
  by (simp add: macho_eval_defs fat64_one_slice_def cong: bindE_weak_cong)

text \<open>Other reads that leave the buffer, and a region that leaves the file.\<close>

lemma parseMachO_throws: "parseMachO macho_truncated_main ''m'' True = Inl RangeError"
  by (simp add: macho_eval_defs macho_truncated_main_def LC_TYPES_def cong: bindE_weak_cong)

lemma parseJPEG_throws: "parseJPEG jpeg_short_sof ''j.jpg'' True = Inl RangeError"
  by (simp add: parseJPEG_def jpeg_short_sof_def jpegLoop.simps jpegSegmentRegion_def
        jpegMarkerName_def JPEG_MARKERS_def Let_def getUint16_def getUint8_def getUint_def
        uintAt_def le_nat_def paletteOf_def cong: bindE_weak_cong)

lemma parsePNG_empty_buffer:
  "map_sum id (\<lambda>pf. (pf_isValid pf, pf_size pf,
                      map (\<lambda>r. (rg_name r, rg_offset r, rg_size r)) (pf_regions pf)))
     (parsePNG [] ''e.png'' True) = Inr (True, 0, [(''PNG Signature'', 0, 8)])"
  by (simp add: parsePNG_def pngLoop.simps Let_def with_value_def region_def)



end
